theory Spec2Isabelle
  imports Main "HOL-Library.Sublist"
begin

section \<open>Python strings\<close>

text \<open>
  A Python \<open>str\<close> is a sequence of Unicode code points, so a string is a list of
  naturals, one per code point. \<open>str_of\<close> reads an ASCII literal of the theory as such
  a string: \<open>str_of ''ab'' = [97, 98]\<close>.
\<close>

type_synonym pychar = nat

type_synonym pystr = "nat list"

definition str_of :: "string \<Rightarrow> pystr" where
  "str_of s = map of_char s"

definition in_ranges :: "nat \<Rightarrow> (nat \<times> nat) list \<Rightarrow> bool" where
  "in_ranges c rs = list_ex (\<lambda>(lo, hi). lo \<le> c \<and> c \<le> hi) rs"

text \<open>
  \<open>str.isspace\<close>, \<open>str.strip()\<close> without argument and the class \<open>\s\<close> of \<open>re\<close> (on a
  \<open>str\<close> pattern) share one table of whitespace: U+0009..U+000D, U+001C..U+0020, U+0085,
  U+00A0, U+1680, U+2000..U+200A, U+2028, U+2029, U+202F, U+205F, U+3000.
\<close>

definition is_space :: "pychar \<Rightarrow> bool" where
  "is_space c = in_ranges c
     [(9, 13), (28, 32), (133, 133), (160, 160), (5760, 5760), (8192, 8202),
      (8232, 8233), (8239, 8239), (8287, 8287), (12288, 12288)]"

text \<open>The class \<open>[a-zA-Z]\<close>.\<close>

definition is_ascii_letter :: "pychar \<Rightarrow> bool" where
  "is_ascii_letter c = ((65 \<le> c \<and> c \<le> 90) \<or> (97 \<le> c \<and> c \<le> 122))"

text \<open>
  The class \<open>\d\<close> of \<open>re\<close> on a \<open>str\<close> pattern: the decimal digits of Unicode (general
  category Nd), here as CPython 3.11 has them (Unicode 14.0): sixty-one blocks of ten
  and the mathematical digits U+1D7CE..U+1D7FF.
\<close>

definition decimal_blocks :: "nat list" where
  "decimal_blocks =
     [48, 1632, 1776, 1984, 2406, 2534, 2662, 2790, 2918, 3046, 3174, 3302, 3430, 3558,
      3664, 3792, 3872, 4160, 4240, 6112, 6160, 6470, 6608, 6784, 6800, 6992, 7088, 7232,
      7248, 42528, 43216, 43264, 43472, 43504, 43600, 44016, 65296, 66720, 68912, 69734,
      69872, 69942, 70096, 70384, 70736, 70864, 71248, 71360, 71472, 71904, 72016, 72784,
      73040, 73120, 92768, 92864, 93008, 123200, 123632, 125264, 130032]"

definition is_decimal :: "pychar \<Rightarrow> bool" where
  "is_decimal c =
     (list_ex (\<lambda>lo. lo \<le> c \<and> c \<le> lo + 9) decimal_blocks \<or> (120782 \<le> c \<and> c \<le> 120831))"

text \<open>
  \<open>str.isdigit\<close> on one character: the decimal digits and the other characters whose
  Unicode numeric type is Digit (superscripts, subscripts, circled digits and the like).
\<close>

definition is_digit :: "pychar \<Rightarrow> bool" where
  "is_digit c = (is_decimal c \<or> in_ranges c
     [(178, 179), (185, 185), (4969, 4977), (6618, 6618), (8304, 8304), (8308, 8313),
      (8320, 8329), (9312, 9320), (9332, 9340), (9352, 9360), (9450, 9450), (9461, 9469),
      (9471, 9471), (10102, 10110), (10112, 10120), (10122, 10130), (68160, 68163),
      (69216, 69224), (69714, 69722), (127232, 127242)])"

text \<open>\<open>text.isdigit()\<close>: every character is a digit and there is at least one.\<close>

definition isdigit :: "pystr \<Rightarrow> bool" where
  "isdigit s = (s \<noteq> [] \<and> list_all is_digit s)"

text \<open>\<open>text.strip()\<close>: the whitespace at both ends is dropped.\<close>

definition strip :: "pystr \<Rightarrow> pystr" where
  "strip s = rev (dropWhile is_space (rev (dropWhile is_space s)))"

text \<open>\<open>text.startswith(p)\<close> and \<open>text.endswith(p)\<close>.\<close>

definition startswith :: "pystr \<Rightarrow> pystr \<Rightarrow> bool" where
  "startswith s p = (take (length p) s = p)"

definition endswith :: "pystr \<Rightarrow> pystr \<Rightarrow> bool" where
  "endswith s p = (length p \<le> length s \<and> drop (length s - length p) s = p)"

text \<open>\<open>sep.join(parts)\<close>.\<close>

fun join :: "pystr \<Rightarrow> pystr list \<Rightarrow> pystr" where
  "join sep [] = []"
| "join sep [x] = x"
| "join sep (x # y # ys) = x @ sep @ join sep (y # ys)"

text \<open>
  \<open>text.split(sep)\<close> for a separator of one character: the pieces between the
  separators, empty pieces included; a text without separator is its only piece.
\<close>

fun split_on :: "pychar \<Rightarrow> pystr \<Rightarrow> pystr list" where
  "split_on sep [] = [[]]"
| "split_on sep (c # cs) =
     (if c = sep then [] # split_on sep cs
      else (case split_on sep cs of
              [] \<Rightarrow> [[c]]
            | p # ps \<Rightarrow> (c # p) # ps))"

section \<open>Regular expressions\<close>

text \<open>
  The patterns of \<open>column_cleaners.py\<close> use character classes, sequence, alternative,
  option and repetition only. They are regular, so matching is decided by derivatives:
  \<open>deriv c r\<close> matches what is left of a match of \<open>r\<close> after it read \<open>c\<close>.
\<close>

datatype regex =
    Null
  | Eps
  | Cls "pychar \<Rightarrow> bool"
  | Seq regex regex
  | Alt regex regex
  | Star regex

fun nullable :: "regex \<Rightarrow> bool" where
  "nullable Null = False"
| "nullable Eps = True"
| "nullable (Cls P) = False"
| "nullable (Seq r s) = (nullable r \<and> nullable s)"
| "nullable (Alt r s) = (nullable r \<or> nullable s)"
| "nullable (Star r) = True"

fun deriv :: "pychar \<Rightarrow> regex \<Rightarrow> regex" where
  "deriv c Null = Null"
| "deriv c Eps = Null"
| "deriv c (Cls P) = (if P c then Eps else Null)"
| "deriv c (Seq r s) =
     (if nullable r then Alt (Seq (deriv c r) s) (deriv c s) else Seq (deriv c r) s)"
| "deriv c (Alt r s) = Alt (deriv c r) (deriv c s)"
| "deriv c (Star r) = Seq (deriv c r) (Star r)"

text \<open>\<open>re.fullmatch(r, text)\<close>, as a truth value.\<close>

fun fullmatch :: "regex \<Rightarrow> pystr \<Rightarrow> bool" where
  "fullmatch r [] = nullable r"
| "fullmatch r (c # cs) = fullmatch (deriv c r) cs"

definition Chr :: "pychar \<Rightarrow> regex" where
  "Chr c = Cls (\<lambda>x. x = c)"

definition AnyChar :: regex where
  "AnyChar = Cls (\<lambda>x. True)"

definition Plus :: "regex \<Rightarrow> regex" where
  "Plus r = Seq r (Star r)"

definition Opt :: "regex \<Rightarrow> regex" where
  "Opt r = Alt r Eps"

text \<open>\<open>r{n}\<close> and \<open>r{n,m}\<close> (\<open>Between r n k\<close> is \<open>r{n,n+k}\<close>).\<close>

fun Times :: "regex \<Rightarrow> nat \<Rightarrow> regex" where
  "Times r 0 = Eps"
| "Times r (Suc n) = Seq r (Times r n)"

fun AtMost :: "regex \<Rightarrow> nat \<Rightarrow> regex" where
  "AtMost r 0 = Eps"
| "AtMost r (Suc n) = Opt (Seq r (AtMost r n))"

definition Between :: "regex \<Rightarrow> nat \<Rightarrow> nat \<Rightarrow> regex" where
  "Between r n k = Seq (Times r n) (AtMost r k)"

text \<open>A literal word, each letter matched by the class given for it.\<close>

fun Word :: "(pychar \<Rightarrow> regex) \<Rightarrow> pystr \<Rightarrow> regex" where
  "Word f [] = Eps"
| "Word f (c # cs) = Seq (f c) (Word f cs)"

text \<open>
  \<open>re.search(r, text)\<close>, as a truth value: some part of the text matches. With a
  final \<open>$\<close> the part ends at the end of the text, or before a newline that ends it.
\<close>

definition search :: "regex \<Rightarrow> pystr \<Rightarrow> bool" where
  "search r s = fullmatch (Seq (Star AnyChar) (Seq r (Star AnyChar))) s"

definition search_dollar :: "regex \<Rightarrow> pystr \<Rightarrow> bool" where
  "search_dollar r s = fullmatch (Seq (Star AnyChar) (Seq r (Opt (Chr 10)))) s"

text \<open>
  \<open>re.search\<close> of a pattern that is one character class, such as \<open>\d\<close>: some
  character of the text is in the class.
\<close>

definition search_class :: "(pychar \<Rightarrow> bool) \<Rightarrow> pystr \<Rightarrow> bool" where
  "search_class P s = list_ex P s"

text \<open>
  Under \<open>re.IGNORECASE\<close> a letter of the pattern matches both its cases and the
  characters whose simple case mapping gives it: U+017F for s; U+0130 and U+0131 for i.
\<close>

definition ignorecase :: "pychar \<Rightarrow> regex" where
  "ignorecase c = Cls (\<lambda>x.
     x = c \<or> (is_ascii_letter c \<and> is_ascii_letter x \<and> x mod 32 = c mod 32)
     \<or> (c mod 32 = 19 \<and> is_ascii_letter c \<and> x = 383)
     \<or> (c mod 32 = 9 \<and> is_ascii_letter c \<and> (x = 304 \<or> x = 305)))"

text \<open>\<open>re.sub(r"\s+", " ", text)\<close>: every maximal run of whitespace becomes one space.\<close>

function collapse_spaces :: "pystr \<Rightarrow> pystr" where
  "collapse_spaces [] = []"
| "collapse_spaces (c # cs) =
     (if is_space c then 32 # collapse_spaces (dropWhile is_space cs)
      else c # collapse_spaces cs)"
  by pat_completeness auto
termination
  by (relation "measure length") (auto intro: le_imp_less_Suc length_dropWhile_le)

section \<open>The column cleaners (column_cleaners.py)\<close>

text \<open>
  \<open>clean_full_name\<close>: the patterns are \<open>[a-zA-Z]:\<close> and, ignoring case,
  \<open>\.(csv|txt|xlsx|json|zip)$\<close>; \<open>re.sub(r"[^a-zA-Z\s]", "", text)\<close> keeps the letters
  and the whitespace.
\<close>

definition drive_letter :: regex where
  "drive_letter = Seq (Cls is_ascii_letter) (Chr 58)"

definition file_extension :: regex where
  "file_extension =
     Seq (Chr 46)
       (Alt (Word ignorecase (str_of ''csv''))
       (Alt (Word ignorecase (str_of ''txt''))
       (Alt (Word ignorecase (str_of ''xlsx''))
       (Alt (Word ignorecase (str_of ''json''))
            (Word ignorecase (str_of ''zip''))))))"

definition clean_full_name :: "pystr \<Rightarrow> pystr" where
  "clean_full_name text0 =
     (if text0 = [] then []
      else let t = strip text0 in
        if 92 \<in> set t \<or> 47 \<in> set t \<or> search drive_letter t \<or> search_dollar file_extension t
        then []
        else let cleaned = filter (\<lambda>c. is_ascii_letter c \<or> is_space c) t;
                 cleaned = collapse_spaces cleaned
             in (if cleaned \<noteq> [] then cleaned else []))"

text \<open>
  "Serialized-collection-looking": \<open>text.startswith("[") or text.startswith("{") or
  text == "[]"\<close>.
\<close>

definition looks_serialized :: "pystr \<Rightarrow> bool" where
  "looks_serialized t =
     (startswith t (str_of ''['') \<or> startswith t (str_of ''{'') \<or> t = str_of ''[]'')"

definition clean_job_title :: "pystr \<Rightarrow> pystr" where
  "clean_job_title text0 =
     (if text0 = [] then []
      else let t = strip text0 in
        if looks_serialized t then [] else t)"

text \<open>\<open>clean_industry\<close>: the patterns are \<open>\d\<close> and \<open>[^a-zA-Z\s,&-]\<close>.\<close>

definition industry_forbidden :: "pychar \<Rightarrow> bool" where
  "industry_forbidden c =
     (\<not> (is_ascii_letter c \<or> is_space c \<or> c = 44 \<or> c = 38 \<or> c = 45))"

definition clean_industry :: "pystr \<Rightarrow> pystr" where
  "clean_industry text0 =
     (if text0 = [] then []
      else let t = strip text0 in
        if looks_serialized t \<or> search_class is_decimal t then []
        else if search_class industry_forbidden t then []
        else let cleaned = collapse_spaces t in strip cleaned)"

text \<open>
  \<open>clean_summary\<close>: the patterns are \<open>\d+-\d+\<close>, \<open>\d+\+\<close> and \<open>\d+\.\d+\<close>.
\<close>

definition numeric_range :: regex where
  "numeric_range = Seq (Plus (Cls is_decimal)) (Seq (Chr 45) (Plus (Cls is_decimal)))"

definition number_plus :: regex where
  "number_plus = Seq (Plus (Cls is_decimal)) (Chr 43)"

definition simple_float :: regex where
  "simple_float = Seq (Plus (Cls is_decimal)) (Seq (Chr 46) (Plus (Cls is_decimal)))"

definition clean_summary :: "pystr \<Rightarrow> pystr" where
  "clean_summary text0 =
     (if text0 = [] then []
      else let t = strip text0 in
        if looks_serialized t then []
        else if fullmatch numeric_range t \<or> fullmatch number_plus t \<or> fullmatch simple_float t
        then []
        else t)"

text \<open>
  \<open>clean_location_country\<close>: the patterns are \<open>\d{4}-\d{2}-\d{2}\<close>,
  \<open>[\d,]+-[\d,]+\<close>, \<open><[\d,]+\<close>, \<open>>[\d,]+\<close> and \<open>\d+\.\d+\<close>.
\<close>

definition iso_date :: regex where
  "iso_date =
     Seq (Times (Cls is_decimal) 4) (Seq (Chr 45)
       (Seq (Times (Cls is_decimal) 2) (Seq (Chr 45) (Times (Cls is_decimal) 2))))"

definition digits_commas :: regex where
  "digits_commas = Plus (Cls (\<lambda>c. is_decimal c \<or> c = 44))"

definition comma_range :: regex where
  "comma_range = Seq digits_commas (Seq (Chr 45) digits_commas)"

definition less_than :: regex where
  "less_than = Seq (Chr 60) digits_commas"

definition greater_than :: regex where
  "greater_than = Seq (Chr 62) digits_commas"

definition clean_location_country :: "pystr \<Rightarrow> pystr" where
  "clean_location_country text0 =
     (if text0 = [] then []
      else let t = strip text0 in
        if looks_serialized t then []
        else if fullmatch iso_date t then []
        else if fullmatch comma_range t then []
        else if fullmatch less_than t \<or> fullmatch greater_than t then []
        else if fullmatch simple_float t then []
        else if length t = 1 then []
        else t)"

text \<open>\<open>clean_job_summary\<close>: the pattern is \<open>\d{4}-\d{2}(-\d{2})?\<close>.\<close>

definition year_month :: regex where
  "year_month =
     Seq (Times (Cls is_decimal) 4) (Seq (Chr 45)
       (Seq (Times (Cls is_decimal) 2) (Opt (Seq (Chr 45) (Times (Cls is_decimal) 2)))))"

definition clean_job_summary :: "pystr \<Rightarrow> pystr" where
  "clean_job_summary text0 =
     (if text0 = [] then []
      else let t = strip text0 in
        if length t = 1 \<or> isdigit t \<or> fullmatch year_month t then []
        else t)"

section \<open>Parsed literals\<close>

text \<open>
  The values \<open>ast.literal_eval\<close> returns. A float or a complex number is kept by its
  \<open>repr\<close>: the cleaners only ask whether a value is a list, a dict or a str. A dict is
  the list of its items in insertion order.
\<close>

datatype pyval =
    PNone
  | PBool bool
  | PInt int
  | PFloat pystr
  | PComplex pystr
  | PStr pystr
  | PBytes "nat list"
  | PList "pyval list"
  | PTuple "pyval list"
  | PSet "pyval list"
  | PDict "(pyval \<times> pyval) list"

text \<open>
  \<open>ast.literal_eval\<close> belongs to Python's standard library, not to the repository, so
  the cleaners take it as a parameter: \<open>None\<close> when it raises (ValueError, SyntaxError,
  TypeError, MemoryError and RecursionError are what it raises on a string, each a
  subclass of \<open>Exception\<close>, which the cleaners catch).
\<close>

type_synonym literal_eval = "pystr \<Rightarrow> pyval option"

text \<open>
  \<open>d.get(key)\<close>: the value stored under the key, \<open>None\<close> when there is none. Of two
  items with equal keys the later one stands.
\<close>

definition dict_get :: "(pyval \<times> pyval) list \<Rightarrow> pyval \<Rightarrow> pyval" where
  "dict_get d k = (case map_of (rev d) k of None \<Rightarrow> PNone | Some v \<Rightarrow> v)"

text \<open>The test all three list cleaners start with.\<close>

definition looks_like_list :: "pystr \<Rightarrow> bool" where
  "looks_like_list t = (startswith t (str_of ''['') \<and> endswith t (str_of '']''))"

text \<open>
  \<open>clean_education\<close>. The loop over \<open>data\<close> carries \<open>school_names\<close>.
\<close>

fun education_loop :: "pyval list \<Rightarrow> pystr list \<Rightarrow> pystr list" where
  "education_loop [] school_names = school_names"
| "education_loop (item # data) school_names =
     education_loop data
       (case item of
          PDict d \<Rightarrow>
            (case dict_get d (PStr (str_of ''school'')) of
               PDict school \<Rightarrow>
                 (case dict_get school (PStr (str_of ''name'')) of
                    PStr name \<Rightarrow>
                      if strip name \<noteq> [] then school_names @ [strip name] else school_names
                  | _ \<Rightarrow> school_names)
             | _ \<Rightarrow> school_names)
        | _ \<Rightarrow> school_names)"

definition clean_education :: "literal_eval \<Rightarrow> pystr \<Rightarrow> pystr" where
  "clean_education literal_eval text0 =
     (if text0 = [] then []
      else let t = strip text0 in
        if \<not> looks_like_list t then []
        else (case literal_eval t of
                None \<Rightarrow> []
              | Some data \<Rightarrow>
                  (case data of
                     PList items \<Rightarrow> join (str_of '' | '') (education_loop items [])
                   | _ \<Rightarrow> [])))"

text \<open>
  \<open>clean_experience\<close>. \<open>sub_name item key\<close> is the value \<open>company_name\<close> (or
  \<open>title_name\<close>) has after the lookups under \<open>key\<close>: the stripped name, or the empty
  string it started with.
\<close>

definition sub_name :: "(pyval \<times> pyval) list \<Rightarrow> pystr \<Rightarrow> pystr" where
  "sub_name item key =
     (case dict_get item (PStr key) of
        PDict sub \<Rightarrow>
          (case dict_get sub (PStr (str_of ''name'')) of
             PStr name \<Rightarrow> strip name
           | _ \<Rightarrow> [])
      | _ \<Rightarrow> [])"

fun experience_loop :: "pyval list \<Rightarrow> pystr list \<Rightarrow> pystr list" where
  "experience_loop [] results = results"
| "experience_loop (item # data) results =
     experience_loop data
       (case item of
          PDict d \<Rightarrow>
            (let company_name = sub_name d (str_of ''company'');
                 title_name = sub_name d (str_of ''title'')
             in if company_name \<noteq> [] \<and> title_name \<noteq> []
                then results @ [company_name @ str_of '' : '' @ title_name]
                else if company_name \<noteq> [] then results @ [company_name]
                else if title_name \<noteq> [] then results @ [title_name]
                else results)
        | _ \<Rightarrow> results)"

definition clean_experience :: "literal_eval \<Rightarrow> pystr \<Rightarrow> pystr" where
  "clean_experience literal_eval text0 =
     (if text0 = [] then []
      else let t = strip text0 in
        if \<not> looks_like_list t then []
        else (case literal_eval t of
                None \<Rightarrow> []
              | Some data \<Rightarrow>
                  (case data of
                     PList items \<Rightarrow> join (str_of '' | '') (experience_loop items [])
                   | _ \<Rightarrow> [])))"

text \<open>\<open>clean_skills\<close>: the pattern is \<open>\+\d{7,15}\<close>.\<close>

definition phone_number :: regex where
  "phone_number = Seq (Chr 43) (Between (Cls is_decimal) 7 8)"

fun skills_loop :: "pyval list \<Rightarrow> pystr list \<Rightarrow> pystr list" where
  "skills_loop [] skills = skills"
| "skills_loop (item # data) skills =
     skills_loop data
       (case item of
          PStr s \<Rightarrow>
            (let item_clean = strip s
             in if item_clean = [] then skills
                else if fullmatch phone_number item_clean then skills
                else skills @ [item_clean])
        | _ \<Rightarrow> skills)"

definition clean_skills :: "literal_eval \<Rightarrow> pystr \<Rightarrow> pystr" where
  "clean_skills literal_eval text0 =
     (if text0 = [] then []
      else let t = strip text0 in
        if \<not> looks_like_list t then []
        else (case literal_eval t of
                None \<Rightarrow> []
              | Some data \<Rightarrow>
                  (case data of
                     PList items \<Rightarrow> join (str_of '' | '') (skills_loop items [])
                   | _ \<Rightarrow> [])))"

section \<open>Dispatch (get_cleaner)\<close>

text \<open>
  The messages of the \<open>ValueError\<close>s the repository raises, each with the values its
  f-string prints: \<open>No cleaner found for column '...'\<close>, \<open>Invalid columns: [...]\<close>,
  \<open>Invalid field: ...\<close> and \<open>No search fields provided\<close>. \<open>KeyError\<close> is what pandas
  raises for missing columns, with the set of their names (it builds the message from a
  set, so in no fixed order); \<open>StoreError\<close> is whatever the Elasticsearch client raises.
\<close>

datatype message =
    No_cleaner_found pystr
  | Invalid_columns "pystr list"
  | Invalid_field pystr
  | No_search_fields

datatype py_error =
    ValueError message
  | KeyError "pystr set"
  | StoreError pystr

definition cleaners :: "literal_eval \<Rightarrow> (pystr \<times> (pystr \<Rightarrow> pystr)) list" where
  "cleaners literal_eval =
     [(str_of ''full_name'', clean_full_name),
      (str_of ''job_title'', clean_job_title),
      (str_of ''industry'', clean_industry),
      (str_of ''summary'', clean_summary),
      (str_of ''location_country'', clean_location_country),
      (str_of ''education'', clean_education literal_eval),
      (str_of ''experience'', clean_experience literal_eval),
      (str_of ''skills'', clean_skills literal_eval),
      (str_of ''job_summary'', clean_job_summary)]"

definition get_cleaner :: "literal_eval \<Rightarrow> pystr \<Rightarrow> py_error + (pystr \<Rightarrow> pystr)" where
  "get_cleaner literal_eval column_name =
     (case map_of (cleaners literal_eval) column_name of
        None \<Rightarrow> Inl (ValueError (No_cleaner_found column_name))
      | Some cleaner \<Rightarrow> Inr cleaner)"

text \<open>
  \<open>normalize_col\<close> is how \<open>ingest_data.py\<close> and \<open>export_text.py\<close> clean a
  cell (the specification's \<open>normalize\<close>): \<open>get_cleaner(col)\<close>, then the cleaner on the
  cell's text.
\<close>

definition normalize_col :: "literal_eval \<Rightarrow> pystr \<Rightarrow> pystr \<Rightarrow> py_error + pystr" where
  "normalize_col literal_eval column_name raw =
     (case get_cleaner literal_eval column_name of
        Inl e \<Rightarrow> Inl e
      | Inr cleaner \<Rightarrow> Inr (cleaner raw))"

section \<open>The list cleaners as Python runs them\<close>

text \<open>
  What \<open>ast.literal_eval\<close> returns is dynamically typed: a method an object does not
  have raises \<open>AttributeError\<close>, a library call on an object of the wrong class raises
  \<open>TypeError\<close>. The run of a cleaner is its value, or what it raised. The tests
  \<open>isinstance(v, list)\<close>, \<open>isinstance(v, dict)\<close> and \<open>isinstance(v, str)\<close> raise nothing.
\<close>

datatype raised = AttributeError | TypeError | Raised py_error

fun and_then :: "raised + 'a \<Rightarrow> ('a \<Rightarrow> raised + 'b) \<Rightarrow> raised + 'b" where
  "and_then (Inl e) f = Inl e"
| "and_then (Inr x) f = f x"

definition is_list :: "pyval \<Rightarrow> bool" where
  "is_list v = (case v of PList xs \<Rightarrow> True | _ \<Rightarrow> False)"

definition is_dict :: "pyval \<Rightarrow> bool" where
  "is_dict v = (case v of PDict d \<Rightarrow> True | _ \<Rightarrow> False)"

definition is_str :: "pyval \<Rightarrow> bool" where
  "is_str v = (case v of PStr s \<Rightarrow> True | _ \<Rightarrow> False)"

text \<open>
  The truth value of an object: \<open>None\<close>, \<open>False\<close>, a zero and an empty string or
  container are false. A float is zero when its \<open>repr\<close> is \<open>0.0\<close> or \<open>-0.0\<close>, a complex
  number when it is \<open>0j\<close>, \<open>-0j\<close>, \<open>(-0+0j)\<close> or \<open>(-0-0j)\<close>.
\<close>

fun truthy :: "pyval \<Rightarrow> bool" where
  "truthy PNone = False"
| "truthy (PBool b) = b"
| "truthy (PInt n) = (n \<noteq> 0)"
| "truthy (PFloat r) = (r \<noteq> str_of ''0.0'' \<and> r \<noteq> str_of ''-0.0'')"
| "truthy (PComplex r) =
     (r \<noteq> str_of ''0j'' \<and> r \<noteq> str_of ''-0j'' \<and> r \<noteq> str_of ''(-0+0j)'' \<and> r \<noteq> str_of ''(-0-0j)'')"
| "truthy (PStr s) = (s \<noteq> [])"
| "truthy (PBytes b) = (b \<noteq> [])"
| "truthy (PList xs) = (xs \<noteq> [])"
| "truthy (PTuple xs) = (xs \<noteq> [])"
| "truthy (PSet xs) = (xs \<noteq> [])"
| "truthy (PDict d) = (d \<noteq> [])"

text \<open>\<open>v.get(key)\<close> for a key that is a string: only a dict has the method.\<close>

fun py_get :: "pyval \<Rightarrow> pystr \<Rightarrow> raised + pyval" where
  "py_get (PDict d) key = Inr (dict_get d (PStr key))"
| "py_get v key = Inl AttributeError"

text \<open>
  \<open>v.strip()\<close>: a str and a bytes object have the method, nothing else has; on bytes
  it drops the ASCII whitespace (tab, line feed, vertical tab, form feed, carriage return
  and space).
\<close>

definition is_bytes_space :: "nat \<Rightarrow> bool" where
  "is_bytes_space c = ((9 \<le> c \<and> c \<le> 13) \<or> c = 32)"

fun py_strip :: "pyval \<Rightarrow> raised + pyval" where
  "py_strip (PStr s) = Inr (PStr (strip s))"
| "py_strip (PBytes b) =
     Inr (PBytes (rev (dropWhile is_bytes_space (rev (dropWhile is_bytes_space b)))))"
| "py_strip v = Inl AttributeError"

text \<open>
  \<open>re.fullmatch(r, v)\<close> for a pattern that is a str: \<open>TypeError\<close> unless \<open>v\<close> is a str.
\<close>

fun py_fullmatch :: "regex \<Rightarrow> pyval \<Rightarrow> raised + bool" where
  "py_fullmatch r (PStr s) = Inr (fullmatch r s)"
| "py_fullmatch r v = Inl TypeError"

text \<open>\<open>sep.join(parts)\<close>: \<open>TypeError\<close> when a part is not a str.\<close>

fun strs_of :: "pyval list \<Rightarrow> raised + pystr list" where
  "strs_of [] = Inr []"
| "strs_of (PStr s # vs) = and_then (strs_of vs) (\<lambda>ss. Inr (s # ss))"
| "strs_of (v # vs) = Inl TypeError"

definition py_join :: "pystr \<Rightarrow> pyval list \<Rightarrow> raised + pystr" where
  "py_join sep parts = and_then (strs_of parts) (\<lambda>ss. Inr (join sep ss))"

text \<open>
  A value in an f-string: a str stands for itself, any other object for its \<open>str()\<close>,
  which belongs to the library and is the parameter \<open>to_str\<close>. It raises nothing.
\<close>

definition format_value :: "(pyval \<Rightarrow> pystr) \<Rightarrow> pyval \<Rightarrow> pystr" where
  "format_value to_str v = (case v of PStr s \<Rightarrow> s | _ \<Rightarrow> to_str v)"

text \<open>The body of the loop of \<open>clean_education\<close>, on one item.\<close>

definition education_item_run :: "pyval \<Rightarrow> pyval list \<Rightarrow> raised + pyval list" where
  "education_item_run item school_names =
     (if is_dict item
      then and_then (py_get item (str_of ''school'')) (\<lambda>school.
        if is_dict school
        then and_then (py_get school (str_of ''name'')) (\<lambda>name.
          if is_str name
          then and_then (py_strip name) (\<lambda>stripped.
            if truthy stripped then Inr (school_names @ [stripped]) else Inr school_names)
          else Inr school_names)
        else Inr school_names)
      else Inr school_names)"

fun education_loop_run :: "pyval list \<Rightarrow> pyval list \<Rightarrow> raised + pyval list" where
  "education_loop_run [] school_names = Inr school_names"
| "education_loop_run (item # data) school_names =
     and_then (education_item_run item school_names) (education_loop_run data)"

text \<open>
  \<open>clean_education\<close> as it runs: \<open>except Exception\<close> catches what \<open>ast.literal_eval\<close>
  raises; nothing catches what the loop or \<open>join\<close> raises. The loop runs under
  \<open>isinstance(data, list)\<close>, over the items of the list.
\<close>

definition clean_education_run :: "literal_eval \<Rightarrow> pystr \<Rightarrow> raised + pystr" where
  "clean_education_run literal_eval text0 =
     (if text0 = [] then Inr []
      else let t = strip text0 in
        if \<not> looks_like_list t then Inr []
        else (case literal_eval t of
                None \<Rightarrow> Inr []
              | Some data \<Rightarrow>
                  (case data of
                     PList items \<Rightarrow>
                       and_then (education_loop_run items []) (py_join (str_of '' | ''))
                   | _ \<Rightarrow> Inr [])))"

text \<open>
  \<open>clean_experience\<close> as it runs. \<open>sub_name_run item key\<close> is \<open>company_name\<close> (or
  \<open>title_name\<close>) after the lookups under \<open>key\<close>.
\<close>

definition sub_name_run :: "pyval \<Rightarrow> pystr \<Rightarrow> raised + pyval" where
  "sub_name_run item key =
     and_then (py_get item key) (\<lambda>sub.
       if is_dict sub
       then and_then (py_get sub (str_of ''name'')) (\<lambda>name.
         if is_str name then py_strip name else Inr (PStr []))
       else Inr (PStr []))"

definition experience_item_run ::
  "(pyval \<Rightarrow> pystr) \<Rightarrow> pyval \<Rightarrow> pyval list \<Rightarrow> raised + pyval list" where
  "experience_item_run to_str item results =
     (if \<not> is_dict item then Inr results
      else and_then (sub_name_run item (str_of ''company'')) (\<lambda>company_name.
        and_then (sub_name_run item (str_of ''title'')) (\<lambda>title_name.
          if truthy company_name \<and> truthy title_name
          then Inr (results @
                 [PStr (format_value to_str company_name @ str_of '' : ''
                        @ format_value to_str title_name)])
          else if truthy company_name then Inr (results @ [company_name])
          else if truthy title_name then Inr (results @ [title_name])
          else Inr results)))"

fun experience_loop_run ::
  "(pyval \<Rightarrow> pystr) \<Rightarrow> pyval list \<Rightarrow> pyval list \<Rightarrow> raised + pyval list" where
  "experience_loop_run to_str [] results = Inr results"
| "experience_loop_run to_str (item # data) results =
     and_then (experience_item_run to_str item results) (experience_loop_run to_str data)"

definition clean_experience_run ::
  "literal_eval \<Rightarrow> (pyval \<Rightarrow> pystr) \<Rightarrow> pystr \<Rightarrow> raised + pystr" where
  "clean_experience_run literal_eval to_str text0 =
     (if text0 = [] then Inr []
      else let t = strip text0 in
        if \<not> looks_like_list t then Inr []
        else (case literal_eval t of
                None \<Rightarrow> Inr []
              | Some data \<Rightarrow>
                  (case data of
                     PList items \<Rightarrow>
                       and_then (experience_loop_run to_str items []) (py_join (str_of '' | ''))
                   | _ \<Rightarrow> Inr [])))"

text \<open>\<open>clean_skills\<close> as it runs.\<close>

definition skills_item_run :: "pyval \<Rightarrow> pyval list \<Rightarrow> raised + pyval list" where
  "skills_item_run item skills =
     (if is_str item
      then and_then (py_strip item) (\<lambda>item_clean.
        if \<not> truthy item_clean then Inr skills
        else and_then (py_fullmatch phone_number item_clean) (\<lambda>is_phone.
          if is_phone then Inr skills else Inr (skills @ [item_clean])))
      else Inr skills)"

fun skills_loop_run :: "pyval list \<Rightarrow> pyval list \<Rightarrow> raised + pyval list" where
  "skills_loop_run [] skills = Inr skills"
| "skills_loop_run (item # data) skills =
     and_then (skills_item_run item skills) (skills_loop_run data)"

definition clean_skills_run :: "literal_eval \<Rightarrow> pystr \<Rightarrow> raised + pystr" where
  "clean_skills_run literal_eval text0 =
     (if text0 = [] then Inr []
      else let t = strip text0 in
        if \<not> looks_like_list t then Inr []
        else (case literal_eval t of
                None \<Rightarrow> Inr []
              | Some data \<Rightarrow>
                  (case data of
                     PList items \<Rightarrow>
                       and_then (skills_loop_run items []) (py_join (str_of '' | ''))
                   | _ \<Rightarrow> Inr [])))"

text \<open>
  The six text cleaners work on their argument, a str, with the methods of str and
  with \<open>re\<close> only, and none of these raises on a str: the run of a text cleaner is its
  value. \<open>normalize_run\<close> is the run of \<open>get_cleaner(col)\<close> and of the cleaner on the
  cell's text.
\<close>

definition cleaner_runs ::
  "literal_eval \<Rightarrow> (pyval \<Rightarrow> pystr) \<Rightarrow> (pystr \<times> (pystr \<Rightarrow> raised + pystr)) list" where
  "cleaner_runs literal_eval to_str =
     [(str_of ''full_name'', \<lambda>raw. Inr (clean_full_name raw)),
      (str_of ''job_title'', \<lambda>raw. Inr (clean_job_title raw)),
      (str_of ''industry'', \<lambda>raw. Inr (clean_industry raw)),
      (str_of ''summary'', \<lambda>raw. Inr (clean_summary raw)),
      (str_of ''location_country'', \<lambda>raw. Inr (clean_location_country raw)),
      (str_of ''education'', clean_education_run literal_eval),
      (str_of ''experience'', clean_experience_run literal_eval to_str),
      (str_of ''skills'', clean_skills_run literal_eval),
      (str_of ''job_summary'', \<lambda>raw. Inr (clean_job_summary raw))]"

definition normalize_run ::
  "literal_eval \<Rightarrow> (pyval \<Rightarrow> pystr) \<Rightarrow> pystr \<Rightarrow> pystr \<Rightarrow> raised + pystr" where
  "normalize_run literal_eval to_str column_name raw =
     (case map_of (cleaner_runs literal_eval to_str) column_name of
        None \<Rightarrow> Inl (Raised (ValueError (No_cleaner_found column_name)))
      | Some run \<Rightarrow> run raw)"

section \<open>The record pipeline (ingest_data.py)\<close>

definition columns :: "pystr list" where
  "columns =
     [str_of ''full_name'', str_of ''job_title'', str_of ''industry'', str_of ''summary'',
      str_of ''location_country'', str_of ''education'', str_of ''experience'',
      str_of ''skills'', str_of ''job_summary'']"

text \<open>\<open>KEYWORD_COLUMNS\<close> is the same list in \<open>ingest_data.py\<close> and \<open>search_service.py\<close>.\<close>

definition KEYWORD_COLUMNS :: "pystr list" where
  "KEYWORD_COLUMNS = [str_of ''education'', str_of ''experience'', str_of ''skills'']"

text \<open>
  A cell of the data frame, as \<open>pandas.read_csv\<close> gives it for a column of text: a
  string, or NaN for an empty field. \<open>str(cell)\<close> of NaN is \<open>nan\<close>. A row maps the
  frame's column names to cells; \<open>row.get(col, "")\<close> is the empty string for a name the
  row does not have.
\<close>

datatype cell = Text pystr | NaN

type_synonym row = "pystr \<Rightarrow> cell option"

fun py_str :: "cell \<Rightarrow> pystr" where
  "py_str (Text s) = s"
| "py_str NaN = str_of ''nan''"

definition cell_text :: "row \<Rightarrow> pystr \<Rightarrow> pystr" where
  "cell_text r col = (case r col of None \<Rightarrow> [] | Some c \<Rightarrow> py_str c)"

text \<open>
  \<open>df.drop_duplicates(subset=columns)\<close>, of pandas: a row is dropped when an earlier
  row has equal cells in every column of the subset (NaN equal to NaN). \<open>seen\<close> holds
  the keys of the rows read so far.
\<close>

fun drop_duplicates_from :: "('r \<Rightarrow> 'k) \<Rightarrow> 'k list \<Rightarrow> 'r list \<Rightarrow> 'r list" where
  "drop_duplicates_from key seen [] = []"
| "drop_duplicates_from key seen (r # rs) =
     (if key r \<in> set seen then drop_duplicates_from key seen rs
      else r # drop_duplicates_from key (key r # seen) rs)"

definition drop_duplicates :: "pystr list \<Rightarrow> row list \<Rightarrow> row list" where
  "drop_duplicates cols rows = drop_duplicates_from (\<lambda>r. map r cols) [] rows"

text \<open>
  A document as passed to \<open>es.index\<close>: for each column, in the order of \<open>columns\<close>, a
  string (text columns) or a list of strings (keyword columns).
\<close>

datatype field_value = Scalar pystr | Tags "pystr list"

type_synonym document = "(pystr \<times> field_value) list"

text \<open>
  The body of the loop over \<open>columns\<close>: the cleaned text, and for a keyword column
  \<open>[item.strip() for item in cleaned_text.split("|") if item.strip()]\<close>.
\<close>

definition split_items :: "pystr \<Rightarrow> pystr list" where
  "split_items cleaned_text =
     map strip (filter (\<lambda>item. strip item \<noteq> []) (split_on 124 cleaned_text))"

definition doc_field :: "(pystr \<Rightarrow> pystr) \<Rightarrow> pystr \<Rightarrow> row \<Rightarrow> field_value" where
  "doc_field cleaner col r =
     (let cleaned_text = cleaner (cell_text r col)
      in if col \<in> set KEYWORD_COLUMNS
         then (if cleaned_text \<noteq> [] then Tags (split_items cleaned_text) else Tags [])
         else Scalar cleaned_text)"

text \<open>
  \<open>cleaners = {col: get_cleaner(col) for col in columns}\<close>: the cleaner of each
  column, in the order of \<open>columns\<close>; an error of \<open>get_cleaner\<close> ends it.
\<close>

fun get_cleaners ::
  "literal_eval \<Rightarrow> pystr list \<Rightarrow> py_error + (pystr \<times> (pystr \<Rightarrow> pystr)) list" where
  "get_cleaners literal_eval [] = Inr []"
| "get_cleaners literal_eval (col # cols) =
     (case get_cleaner literal_eval col of
        Inl e \<Rightarrow> Inl e
      | Inr cleaner \<Rightarrow>
          (case get_cleaners literal_eval cols of
             Inl e \<Rightarrow> Inl e
           | Inr cs \<Rightarrow> Inr ((col, cleaner) # cs)))"

text \<open>One row's document: the loop over \<open>columns\<close>, each column with its cleaner.\<close>

definition build_doc :: "(pystr \<times> (pystr \<Rightarrow> pystr)) list \<Rightarrow> row \<Rightarrow> document" where
  "build_doc cs r = map (\<lambda>(col, cleaner). (col, doc_field cleaner col r)) cs"

text \<open>
  \<open>df.drop_duplicates(subset=columns)\<close> on the frame, given by its column names and its
  rows. pandas returns an empty frame (no row, or no column) as it is, before it looks at
  the subset; otherwise it raises \<open>KeyError\<close> when the frame lacks a column of the
  subset; otherwise it drops the duplicates.
\<close>

definition frame_drop_duplicates ::
  "pystr list \<Rightarrow> pystr list \<Rightarrow> row list \<Rightarrow> py_error + row list" where
  "frame_drop_duplicates cols df_columns df_rows =
     (if df_rows = [] \<or> df_columns = [] then Inr df_rows
      else if \<not> list_all (\<lambda>col. col \<in> set df_columns) cols
      then Inl (KeyError (set (filter (\<lambda>col. col \<notin> set df_columns) cols)))
      else Inr (drop_duplicates cols df_rows))"

text \<open>
  \<open>ingest\<close>, from the frame \<open>read_csv\<close> returned (its column names and its rows) to the
  documents it passes to \<open>es.index\<close>, in order. Reading the file, recreating the index
  and the store's answer to \<open>es.index\<close> belong to the collaborators.
\<close>

definition ingest :: "literal_eval \<Rightarrow> pystr list \<Rightarrow> row list \<Rightarrow> py_error + document list" where
  "ingest literal_eval df_columns df_rows =
     (case frame_drop_duplicates columns df_columns df_rows of
        Inl e \<Rightarrow> Inl e
      | Inr df \<Rightarrow>
          (case get_cleaners literal_eval columns of
             Inl e \<Rightarrow> Inl e
           | Inr cs \<Rightarrow> Inr (map (build_doc cs) df)))"

section \<open>The query builder (search_service.py)\<close>

definition TEXT_COLUMNS :: "pystr list" where
  "TEXT_COLUMNS =
     [str_of ''full_name'', str_of ''job_title'', str_of ''industry'', str_of ''summary'',
      str_of ''location_country'', str_of ''job_summary'']"

definition ALL_COLUMNS :: "pystr list" where
  "ALL_COLUMNS = TEXT_COLUMNS @ KEYWORD_COLUMNS"

text \<open>
  The query document: \<open>{"query": {"bool": ...}, "highlight": {"fields": ...,
  "pre_tags": ..., "post_tags": ...}, "size": ...}\<close>. The bool query is
  \<open>{"should": clauses, "minimum_should_match": n}\<close> or \<open>{"must": clauses}\<close>; a clause is
  \<open>{"match": {field: value}}\<close> or \<open>{"term": {field: value}}\<close>. The highlight fields are
  the keys of a dict whose values are all \<open>{}\<close>.
\<close>

datatype 'q clause = Match pystr 'q | Term pystr 'q

datatype 'q bool_query = Should "'q clause list" nat | Must "'q clause list"

record 'q body =
  query :: "'q bool_query"
  highlight_fields :: "pystr list"
  pre_tags :: "pystr list"
  post_tags :: "pystr list"
  size_cap :: int

text \<open>
  The keys of the dict a comprehension \<open>{k: {} for k in ks}\<close> builds: each key once, at
  the place of its first occurrence.
\<close>

fun dict_keys_from :: "pystr list \<Rightarrow> pystr list \<Rightarrow> pystr list" where
  "dict_keys_from d [] = d"
| "dict_keys_from d (k # ks) = dict_keys_from (if k \<in> set d then d else d @ [k]) ks"

definition highlight_of :: "pystr list \<Rightarrow> pystr list" where
  "highlight_of cols = dict_keys_from [] (filter (\<lambda>col. col \<in> set TEXT_COLUMNS) cols)"

text \<open>
  The store's answer to \<open>es.search\<close>: the hits, each a source document with or without
  a highlight, and the total. A result is the source document with the highlight, when
  there is one, stored under \<open>_highlight\<close>.
\<close>

type_synonym ('d, 'h) response = "('d \<times> 'h option) list \<times> int"

definition results_of :: "('d, 'h) response \<Rightarrow> ('d \<times> 'h option) list \<times> int" where
  "results_of resp = (map (\<lambda>(doc, hl). (doc, hl)) (fst resp), snd resp)"

text \<open>
  The store is the function \<open>es\<close> from the query document to the answer or the error
  \<open>es.search\<close> raises, and the list \<open>calls\<close> of the documents it was called with so
  far. \<open>size\<close> is \<open>None\<close> when the caller leaves it out.
\<close>

definition clause_for :: "pystr \<Rightarrow> 'q \<Rightarrow> 'q clause" where
  "clause_for col q = (if col \<in> set TEXT_COLUMNS then Match col q else Term col q)"

definition search_columns ::
  "('q body \<Rightarrow> py_error + ('d, 'h) response) \<Rightarrow> pystr list \<Rightarrow> 'q \<Rightarrow> int option \<Rightarrow>
   'q body list \<Rightarrow> (py_error + ('d \<times> 'h option) list \<times> int) \<times> 'q body list" where
  "search_columns es cols q size_arg calls =
     (let size = (case size_arg of None \<Rightarrow> 10 | Some n \<Rightarrow> n)
      in if \<not> list_all (\<lambda>col. col \<in> set ALL_COLUMNS) cols
         then (Inl (ValueError (Invalid_columns (filter (\<lambda>col. col \<notin> set ALL_COLUMNS) cols))),
               calls)
         else
           let should_clauses = map (\<lambda>col. clause_for col q) cols;
               body = \<lparr>query = Should should_clauses 1,
                       highlight_fields = highlight_of cols,
                       pre_tags = [str_of ''<em>''],
                       post_tags = [str_of ''</em>''],
                       size_cap = size\<rparr>
           in (case es body of
                 Inl e \<Rightarrow> (Inl e, calls @ [body])
               | Inr resp \<Rightarrow> (Inr (results_of resp), calls @ [body])))"

text \<open>
  \<open>advanced_search\<close>: the loop over \<open>field_queries.items()\<close> carries \<open>must_clauses\<close>
  and raises at the first field that is not a column.
\<close>

fun must_loop :: "(pystr \<times> 'q) list \<Rightarrow> 'q clause list \<Rightarrow> py_error + 'q clause list" where
  "must_loop [] must_clauses = Inr must_clauses"
| "must_loop ((field, v) # items) must_clauses =
     (if field \<notin> set ALL_COLUMNS then Inl (ValueError (Invalid_field field))
      else must_loop items (must_clauses @ [clause_for field v]))"

definition advanced_search ::
  "('q body \<Rightarrow> py_error + ('d, 'h) response) \<Rightarrow> (pystr \<times> 'q) list \<Rightarrow> int option \<Rightarrow>
   'q body list \<Rightarrow> (py_error + ('d \<times> 'h option) list \<times> int) \<times> 'q body list" where
  "advanced_search es field_queries size_arg calls =
     (let size = (case size_arg of None \<Rightarrow> 10 | Some n \<Rightarrow> n)
      in if field_queries = [] then (Inl (ValueError No_search_fields), calls)
         else
           (case must_loop field_queries [] of
              Inl e \<Rightarrow> (Inl e, calls)
            | Inr must_clauses \<Rightarrow>
                let body = \<lparr>query = Must must_clauses,
                            highlight_fields = highlight_of (map fst field_queries),
                            pre_tags = [str_of ''<em>''],
                            post_tags = [str_of ''</em>''],
                            size_cap = size\<rparr>
                in (case es body of
                      Inl e \<Rightarrow> (Inl e, calls @ [body])
                    | Inr resp \<Rightarrow> (Inr (results_of resp), calls @ [body]))))"

section \<open>The specification's reading, and example inputs\<close>

text \<open>
  The specification's rule for the education column: for every element that is a mapping
  containing a \<open>school\<close> mapping with a string \<open>name\<close>, emit that name (stripped).
\<close>

definition spec_school_name :: "pyval \<Rightarrow> pystr option" where
  "spec_school_name item =
     (case item of
        PDict d \<Rightarrow>
          (case dict_get d (PStr (str_of ''school'')) of
             PDict school \<Rightarrow>
               (case dict_get school (PStr (str_of ''name'')) of
                  PStr name \<Rightarrow> Some (strip name)
                | _ \<Rightarrow> None)
           | _ \<Rightarrow> None)
      | _ \<Rightarrow> None)"

definition spec_school_names :: "pyval list \<Rightarrow> pystr list" where
  "spec_school_names data = List.map_filter spec_school_name data"

text \<open>
  The shape the specification's rules for the list columns expect of an element: a
  mapping containing a \<open>key\<close> mapping with a string \<open>name\<close> (\<open>school\<close> for education,
  \<open>company\<close> or \<open>title\<close> for experience); for skills, a string.
\<close>

definition has_name_under :: "pystr \<Rightarrow> pyval \<Rightarrow> bool" where
  "has_name_under key item =
     (case item of
        PDict d \<Rightarrow>
          (case dict_get d (PStr key) of
             PDict sub \<Rightarrow>
               (case dict_get sub (PStr (str_of ''name'')) of
                  PStr name \<Rightarrow> True
                | _ \<Rightarrow> False)
           | _ \<Rightarrow> False)
      | _ \<Rightarrow> False)"

text \<open>
  The specification's record pipeline: one document per row, then the documents that
  repeat an earlier document are removed.
\<close>

definition spec_build_documents ::
  "(pystr \<times> (pystr \<Rightarrow> pystr)) list \<Rightarrow> row list \<Rightarrow> document list" where
  "spec_build_documents cs rows = drop_duplicates_from (\<lambda>doc. doc) [] (map (build_doc cs) rows)"

text \<open>
  \<open>ast.literal_eval\<close> at the texts the examples use, with what Python returns there
  (it raises on \<open>[abc]\<close>). At any other text this instance answers \<open>None\<close>: it stands
  for the library at the listed texts only.
\<close>

definition school_entry :: "pystr \<Rightarrow> pyval" where
  "school_entry name =
     PDict [(PStr (str_of ''school''), PDict [(PStr (str_of ''name''), PStr name)])]"

definition literal_eval_examples :: literal_eval where
  "literal_eval_examples t =
     (if t = str_of ''[{'school': {'name': 'MIT'}}]'' then Some (PList [school_entry (str_of ''MIT'')])
      else if t = str_of ''[{'school': {'name': 'A|B'}}]''
        then Some (PList [school_entry (str_of ''A|B'')])
      else if t = str_of ''[{'school': {'name': ' '}}, {'school': {'name': 'MIT'}}]''
        then Some (PList [school_entry (str_of '' ''), school_entry (str_of ''MIT'')])
      else if t = str_of ''[1],[2]'' then Some (PTuple [PList [PInt 1], PList [PInt 2]])
      else if t = str_of ''[{'school': 'MIT'}, 7]''
        then Some (PList [PDict [(PStr (str_of ''school''), PStr (str_of ''MIT''))], PInt 7])
      else if t = str_of ''[abc]'' then None
      else None)"

text \<open>A store that answers every search with no hits.\<close>

definition no_hits :: "pystr body \<Rightarrow> py_error + (document, pystr list) response" where
  "no_hits b = Inr ([], 0)"

text \<open>A row with the given text in one column and the empty string in the others.\<close>

definition row_with :: "pystr \<Rightarrow> pystr \<Rightarrow> row" where
  "row_with col s = (\<lambda>c. if c = col then Some (Text s)
                           else if c \<in> set columns then Some (Text []) else None)"

section \<open>Facts about strings\<close>

lemmas class_defs = is_space_def in_ranges_def is_ascii_letter_def is_decimal_def decimal_blocks_def

lemmas regex_defs =
  search_def search_dollar_def Chr_def AnyChar_def Plus_def Opt_def Between_def ignorecase_def

lemma is_space_32: "is_space 32"
  by (simp add: is_space_def in_ranges_def)

lemma dropWhile_hd_id: "s = [] \<or> \<not> P (hd s) \<Longrightarrow> dropWhile P s = s"
  by (cases s) auto

lemma hd_dropWhile_not: "dropWhile P s = [] \<or> \<not> P (hd (dropWhile P s))"
  using hd_dropWhile [of P s] by auto

lemma strip_id:
  assumes "s = [] \<or> (\<not> is_space (hd s) \<and> \<not> is_space (last s))"
  shows "strip s = s"
proof (cases "s = []")
  case True
  then show ?thesis by (simp add: strip_def)
next
  case False
  with assms have h: "\<not> is_space (hd s)" and l: "\<not> is_space (last s)" by auto
  have a: "dropWhile is_space s = s" using h by (simp add: dropWhile_hd_id)
  have "hd (rev s) = last s" using False by (simp add: hd_rev)
  then have b: "dropWhile is_space (rev s) = rev s" using l by (simp add: dropWhile_hd_id)
  show ?thesis by (simp add: strip_def a b)
qed

lemma strip_ends:
  "strip s = [] \<or> (\<not> is_space (hd (strip s)) \<and> \<not> is_space (last (strip s)))"
proof (cases "strip s = []")
  case True
  then show ?thesis by simp
next
  case False
  let ?u = "dropWhile is_space s"
  let ?w = "dropWhile is_space (rev ?u)"
  have sw: "strip s = rev ?w" by (simp add: strip_def)
  with False have wne: "?w \<noteq> []" by simp
  have une: "?u \<noteq> []"
  proof
    assume e: "?u = []"
    have "?w = []" unfolding e by simp
    with wne show False by simp
  qed
  have l: "\<not> is_space (hd ?w)" using hd_dropWhile_not [of is_space "rev ?u"] wne by auto
  obtain ys where ys: "rev ?u = ys @ ?w"
    using takeWhile_dropWhile_id [of is_space "rev ?u"] by metis
  then have "?u = rev ?w @ rev ys" by (metis rev_append rev_rev_ident)
  then have "hd ?u = hd (rev ?w)" using wne by (metis hd_append2 rev_is_Nil_conv)
  moreover have "\<not> is_space (hd ?u)" using hd_dropWhile_not [of is_space s] une by auto
  ultimately have h: "\<not> is_space (hd (rev ?w))" by simp
  have "last (rev ?w) = hd ?w" using wne by (simp add: last_rev)
  with h l sw show ?thesis by simp
qed

lemma strip_idem: "strip (strip s) = strip s"
  using strip_ends [of s] by (rule strip_id)

lemma clean_job_title_idem: "clean_job_title (clean_job_title x) = clean_job_title x"
  by (simp add: clean_job_title_def Let_def strip_idem)

lemma clean_summary_idem: "clean_summary (clean_summary x) = clean_summary x"
  by (simp add: clean_summary_def Let_def strip_idem)

lemma clean_location_country_idem:
  "clean_location_country (clean_location_country x) = clean_location_country x"
  by (simp add: clean_location_country_def Let_def strip_idem)

lemma clean_job_summary_idem: "clean_job_summary (clean_job_summary x) = clean_job_summary x"
  by (simp add: clean_job_summary_def Let_def strip_idem)

lemma set_collapse_spaces: "set (collapse_spaces s) \<subseteq> {c \<in> set s. \<not> is_space c} \<union> {32}"
  by (induction s rule: collapse_spaces.induct) (auto dest: set_dropWhileD)

lemma collapse_spaces_after_run:
  assumes eq: "collapse_spaces (dropWhile is_space cs) = x # r"
  shows "\<not> is_space x"
proof (cases "dropWhile is_space cs")
  case Nil
  from eq [unfolded Nil] show ?thesis by simp
next
  case (Cons y ys)
  have "\<not> is_space y"
    using Cons hd_dropWhile [of is_space cs] by auto
  with eq [unfolded Cons] show ?thesis by simp
qed

lemma dropWhile_collapse_after_run:
  "dropWhile is_space (collapse_spaces (dropWhile is_space cs)) = collapse_spaces (dropWhile is_space cs)"
proof (cases "collapse_spaces (dropWhile is_space cs)")
  case Nil
  then show ?thesis by simp
next
  case (Cons x r)
  then have "\<not> is_space x" by (rule collapse_spaces_after_run)
  with Cons show ?thesis by simp
qed

lemma collapse_spaces_idem: "collapse_spaces (collapse_spaces s) = collapse_spaces s"
proof (induction s rule: collapse_spaces.induct)
  case 1
  show ?case by simp
next
  case (2 c cs)
  show ?case
  proof (cases "is_space c")
    case True
    with 2 show ?thesis by (simp add: is_space_32 dropWhile_collapse_after_run)
  next
    case False
    with 2 show ?thesis by simp
  qed
qed

lemma last_dropWhile_keep: "dropWhile P xs \<noteq> [] \<Longrightarrow> last (dropWhile P xs) = last xs"
  by (metis last_appendR takeWhile_dropWhile_id)

lemma dropWhile_last_not: "xs \<noteq> [] \<Longrightarrow> \<not> P (last xs) \<Longrightarrow> dropWhile P xs \<noteq> []"
  by (metis dropWhile_eq_Nil_conv last_in_set)

lemma collapse_spaces_last:
  "s \<noteq> [] \<Longrightarrow> \<not> is_space (last s) \<Longrightarrow>
   collapse_spaces s \<noteq> [] \<and> last (collapse_spaces s) = last s"
proof (induction s rule: collapse_spaces.induct)
  case 1
  then show ?case by simp
next
  case (2 c cs)
  show ?case
  proof (cases "is_space c")
    case True
    with 2(4) have cs: "cs \<noteq> []" by auto
    with 2(4) have l: "\<not> is_space (last cs)" by simp
    have d: "dropWhile is_space cs \<noteq> []" using cs l by (rule dropWhile_last_not)
    have ld: "last (dropWhile is_space cs) = last cs" using d by (rule last_dropWhile_keep)
    have "collapse_spaces (dropWhile is_space cs) \<noteq> [] \<and>
          last (collapse_spaces (dropWhile is_space cs)) = last (dropWhile is_space cs)"
      using 2(1) [OF True d] l ld by simp
    with True cs ld show ?thesis by simp
  next
    case False
    show ?thesis
    proof (cases "cs = []")
      case True
      with False show ?thesis by simp
    next
      case ne: False
      with 2(4) have "\<not> is_space (last cs)" by simp
      with 2(2) [OF False ne] False ne show ?thesis by simp
    qed
  qed
qed

lemma collapse_spaces_hd:
  "s \<noteq> [] \<Longrightarrow> \<not> is_space (hd s) \<Longrightarrow> hd (collapse_spaces s) = hd s"
  by (cases s) auto

lemma strip_collapse_stripped:
  "strip (collapse_spaces (strip s)) = collapse_spaces (strip s)"
proof (cases "strip s = []")
  case True
  have "strip [] = []" by (simp add: strip_def)
  with True show ?thesis by simp
next
  case False
  with strip_ends [of s] have h: "\<not> is_space (hd (strip s))" and l: "\<not> is_space (last (strip s))"
    by auto
  have "collapse_spaces (strip s) \<noteq> [] \<and> last (collapse_spaces (strip s)) = last (strip s)"
    using False l by (rule collapse_spaces_last)
  moreover have "hd (collapse_spaces (strip s)) = hd (strip s)"
    using False h by (rule collapse_spaces_hd)
  ultimately show ?thesis using h l by (intro strip_id) simp
qed

lemma not_decimal_32: "\<not> is_decimal 32"
  by (simp add: is_decimal_def decimal_blocks_def)

lemma not_forbidden_32: "\<not> industry_forbidden 32"
  by (simp add: industry_forbidden_def is_space_32)

lemma collapse_spaces_keeps_class:
  assumes "\<not> P 32" and "\<not> list_ex P s"
  shows "\<not> list_ex P (collapse_spaces s)"
  using assms set_collapse_spaces [of s] by (auto simp: list_ex_iff)

lemma looks_serialized_iff:
  "looks_serialized s \<longleftrightarrow> s \<noteq> [] \<and> (hd s = 91 \<or> hd s = 123)"
  by (cases s) (auto simp: looks_serialized_def startswith_def str_of_def)

lemma clean_industry_idem: "clean_industry (clean_industry x) = clean_industry x"
proof (cases "clean_industry x = []")
  case True
  then show ?thesis by (simp add: clean_industry_def)
next
  case False
  let ?t = "strip x"
  let ?r = "collapse_spaces ?t"
  from False have x: "x \<noteq> []" by (auto simp: clean_industry_def)
  from False have ns: "\<not> looks_serialized ?t" and nd: "\<not> list_ex is_decimal ?t"
    and nf: "\<not> list_ex industry_forbidden ?t"
    by (auto simp: clean_industry_def Let_def search_class_def split: if_splits)
  have r: "clean_industry x = ?r"
    using x ns nd nf by (simp add: clean_industry_def Let_def search_class_def strip_collapse_stripped)
  with False have rne: "?r \<noteq> []" by simp
  have sr: "strip ?r = ?r" by (rule strip_collapse_stripped)
  have nd': "\<not> list_ex is_decimal ?r" using not_decimal_32 nd by (rule collapse_spaces_keeps_class)
  have nf': "\<not> list_ex industry_forbidden ?r"
    using not_forbidden_32 nf by (rule collapse_spaces_keeps_class)
  have "hd ?r \<in> set ?r" using rne by simp
  then have "\<not> industry_forbidden (hd ?r)" using nf' by (auto simp: list_ex_iff)
  then have ns': "\<not> looks_serialized ?r"
    by (auto simp: looks_serialized_iff industry_forbidden_def is_ascii_letter_def is_space_def in_ranges_def)
  have "clean_industry ?r = ?r"
    using rne ns' nd' nf' by (simp add: clean_industry_def Let_def search_class_def sr collapse_spaces_idem)
  with r show ?thesis by simp
qed

section \<open>Dispatch\<close>

lemma get_cleaner_job_title: "get_cleaner le (str_of ''job_title'') = Inr clean_job_title"
  by (simp add: str_of_def cleaners_def get_cleaner_def)

lemma get_cleaner_industry: "get_cleaner le (str_of ''industry'') = Inr clean_industry"
  by (simp add: str_of_def cleaners_def get_cleaner_def)

lemma get_cleaner_summary: "get_cleaner le (str_of ''summary'') = Inr clean_summary"
  by (simp add: str_of_def cleaners_def get_cleaner_def)

lemma get_cleaner_location_country:
  "get_cleaner le (str_of ''location_country'') = Inr clean_location_country"
  by (simp add: str_of_def cleaners_def get_cleaner_def)

lemma get_cleaner_job_summary: "get_cleaner le (str_of ''job_summary'') = Inr clean_job_summary"
  by (simp add: str_of_def cleaners_def get_cleaner_def)

lemma get_cleaner_full_name: "get_cleaner le (str_of ''full_name'') = Inr clean_full_name"
  by (simp add: str_of_def cleaners_def get_cleaner_def)

lemma get_cleaner_education: "get_cleaner le (str_of ''education'') = Inr (clean_education le)"
  by (simp add: str_of_def cleaners_def get_cleaner_def)

lemma get_cleaner_experience: "get_cleaner le (str_of ''experience'') = Inr (clean_experience le)"
  by (simp add: str_of_def cleaners_def get_cleaner_def)

lemma get_cleaner_skills: "get_cleaner le (str_of ''skills'') = Inr (clean_skills le)"
  by (simp add: str_of_def cleaners_def get_cleaner_def)

lemmas get_cleaner_simps =
  get_cleaner_full_name get_cleaner_job_title get_cleaner_industry get_cleaner_summary
  get_cleaner_location_country get_cleaner_education get_cleaner_experience
  get_cleaner_skills get_cleaner_job_summary

section \<open>C1: cleaning twice\<close>

text \<open>
  C1, as the code has it. For the five text columns job_title, industry, summary,
  location_country and job_summary, cleaning is idempotent: when \<open>normalize\<close> of a cell
  gives \<open>y\<close>, \<open>normalize\<close> of \<open>y\<close> gives \<open>y\<close> again.
\<close>

theorem normalize_idempotent_text_columns:
  assumes col: "col \<in> set [str_of ''job_title'', str_of ''industry'', str_of ''summary'',
                             str_of ''location_country'', str_of ''job_summary'']"
    and first: "normalize_col le col x = Inr y"
  shows "normalize_col le col y = Inr y"
proof -
  from col consider "col = str_of ''job_title''" | "col = str_of ''industry''"
    | "col = str_of ''summary''" | "col = str_of ''location_country''"
    | "col = str_of ''job_summary''"
    by auto
  then show ?thesis
  proof cases
    case 1
    with first show ?thesis
      by (auto simp: normalize_col_def get_cleaner_job_title clean_job_title_idem)
  next
    case 2
    with first show ?thesis
      by (auto simp: normalize_col_def get_cleaner_industry clean_industry_idem)
  next
    case 3
    with first show ?thesis
      by (auto simp: normalize_col_def get_cleaner_summary clean_summary_idem)
  next
    case 4
    with first show ?thesis
      by (auto simp: normalize_col_def get_cleaner_location_country clean_location_country_idem)
  next
    case 5
    with first show ?thesis
      by (auto simp: normalize_col_def get_cleaner_job_summary clean_job_summary_idem)
  qed
qed

text \<open>
  The industry column at a text with a run of spaces and a leading space.
\<close>

theorem normalize_idempotent_text_columns_witness:
  "normalize_col literal_eval_examples (str_of ''industry'') (str_of '' Tech,   Media & Co'')
     = Inr (str_of ''Tech, Media & Co'') \<and>
   normalize_col literal_eval_examples (str_of ''industry'') (str_of ''Tech, Media & Co'')
     = Inr (str_of ''Tech, Media & Co'')"
proof -
  have c: "str_of ''industry'' \<in> set [str_of ''job_title'', str_of ''industry'',
             str_of ''summary'', str_of ''location_country'', str_of ''job_summary'']"
    by simp
  have e: "clean_industry (str_of '' Tech,   Media & Co'') = str_of ''Tech, Media & Co''"
    by (simp add: clean_industry_def Let_def looks_serialized_def startswith_def
        search_class_def industry_forbidden_def strip_def str_of_def class_defs)
  have f: "normalize_col literal_eval_examples (str_of ''industry'') (str_of '' Tech,   Media & Co'')
             = Inr (str_of ''Tech, Media & Co'')"
    by (simp add: normalize_col_def get_cleaner_industry e)
  from f normalize_idempotent_text_columns [OF c f] show ?thesis by simp
qed

text \<open>
  C1 as stated fails. The education cleaner turns a list literal into the joined names,
  which is no list literal: cleaned again, \<open>MIT\<close> becomes the empty string. The full
  name cleaner can leave a leading space, which a second cleaning strips.
\<close>

theorem normalize_not_idempotent:
  "normalize_col literal_eval_examples (str_of ''education'') (str_of ''[{'school': {'name': 'MIT'}}]'')
     = Inr (str_of ''MIT'') \<and>
   normalize_col literal_eval_examples (str_of ''education'') (str_of ''MIT'') = Inr [] \<and>
   normalize_col literal_eval_examples (str_of ''full_name'') (str_of ''1 a'') = Inr (str_of '' a'') \<and>
   normalize_col literal_eval_examples (str_of ''full_name'') (str_of '' a'') = Inr (str_of ''a'')"
proof -
  have a: "clean_education literal_eval_examples (str_of ''[{'school': {'name': 'MIT'}}]'')
             = str_of ''MIT''"
    by (simp add: clean_education_def Let_def looks_like_list_def startswith_def endswith_def
        literal_eval_examples_def school_entry_def dict_get_def strip_def str_of_def class_defs)
  have b: "clean_education literal_eval_examples (str_of ''MIT'') = []"
    by (simp add: clean_education_def Let_def looks_like_list_def startswith_def endswith_def
        strip_def str_of_def class_defs)
  have c: "clean_full_name (str_of ''1 a'') = str_of '' a''"
    by (simp add: clean_full_name_def str_of_def strip_def class_defs search_def
        search_dollar_def Chr_def AnyChar_def Opt_def ignorecase_def drive_letter_def
        file_extension_def Let_def)
  have d: "clean_full_name (str_of '' a'') = str_of ''a''"
    by (simp add: clean_full_name_def str_of_def strip_def class_defs search_def
        search_dollar_def Chr_def AnyChar_def Opt_def ignorecase_def drive_letter_def
        file_extension_def Let_def)
  show ?thesis
    by (simp add: normalize_col_def get_cleaner_education get_cleaner_full_name a b c d)
qed

section \<open>C10: the characters of a cleaned full name\<close>

lemma collapse_spaces_no_double: "\<not> sublist [32, 32] (collapse_spaces s)"
proof (induction s rule: collapse_spaces.induct)
  case 1
  show ?case by simp
next
  case (2 c cs)
  show ?case
  proof (cases "is_space c")
    case True
    have "\<not> prefix [32, 32] (32 # collapse_spaces (dropWhile is_space cs))"
    proof
      assume "prefix [32, 32] (32 # collapse_spaces (dropWhile is_space cs))"
      then obtain r where "collapse_spaces (dropWhile is_space cs) = 32 # r"
        by (auto simp: prefix_def)
      then have "\<not> is_space 32" by (rule collapse_spaces_after_run)
      then show False by (simp add: is_space_32)
    qed
    with True 2 show ?thesis by (simp add: sublist_Cons_right)
  next
    case False
    then have "c \<noteq> 32" using is_space_32 by auto
    with False 2 show ?thesis by (simp add: sublist_Cons_right)
  qed
qed

text \<open>
  C10. For every input the output of \<open>clean_full_name\<close> holds ASCII letters and the
  space character (code 32) only, and nowhere two spaces in a row.
\<close>

theorem clean_full_name_letters_single_spaces:
  "list_all (\<lambda>c. is_ascii_letter c \<or> c = 32) (clean_full_name t) \<and>
   \<not> sublist [32, 32] (clean_full_name t)"
proof -
  have "set (collapse_spaces (filter (\<lambda>c. is_ascii_letter c \<or> is_space c) s))
          \<subseteq> {c. is_ascii_letter c \<or> c = 32}" for s
    using set_collapse_spaces [of "filter (\<lambda>c. is_ascii_letter c \<or> is_space c) s"] by auto
  then have "list_all (\<lambda>c. is_ascii_letter c \<or> c = 32)
               (collapse_spaces (filter (\<lambda>c. is_ascii_letter c \<or> is_space c) s))" for s
    by (auto simp: list_all_iff)
  then show ?thesis
    by (simp add: clean_full_name_def Let_def collapse_spaces_no_double)
qed

text \<open>
  The specification's example \<open>Jane   Doe123\<close>.
\<close>

theorem clean_full_name_letters_single_spaces_witness:
  "clean_full_name (str_of ''Jane   Doe123'') = str_of ''Jane Doe'' \<and>
   list_all (\<lambda>c. is_ascii_letter c \<or> c = 32) (str_of ''Jane Doe'') \<and>
   \<not> sublist [32, 32] (str_of ''Jane Doe'')"
proof -
  have e: "clean_full_name (str_of ''Jane   Doe123'') = str_of ''Jane Doe''"
    by (simp add: clean_full_name_def str_of_def strip_def is_space_def in_ranges_def
        is_ascii_letter_def search_def search_dollar_def Chr_def AnyChar_def Opt_def
        ignorecase_def drive_letter_def file_extension_def Let_def)
  show ?thesis
    using clean_full_name_letters_single_spaces [of "str_of ''Jane   Doe123''"]
    unfolding e by (simp add: e)
qed

section \<open>The query builder\<close>

lemma set_dict_keys_from: "set (dict_keys_from d ks) = set d \<union> set ks"
  by (induction ks arbitrary: d) auto

lemma distinct_dict_keys_from: "distinct d \<Longrightarrow> distinct (dict_keys_from d ks)"
  by (induction ks arbitrary: d) auto

lemma set_highlight_of: "set (highlight_of cols) = set cols \<inter> set TEXT_COLUMNS"
  by (auto simp: highlight_of_def set_dict_keys_from)

lemma distinct_highlight_of: "distinct (highlight_of cols)"
  by (simp add: highlight_of_def distinct_dict_keys_from)

lemma text_not_keyword: "set TEXT_COLUMNS \<inter> set KEYWORD_COLUMNS = {}"
  by (simp add: TEXT_COLUMNS_def KEYWORD_COLUMNS_def str_of_def)

lemma text_part_not_keyword: "A \<inter> set TEXT_COLUMNS \<inter> set KEYWORD_COLUMNS = {}"
  using text_not_keyword by auto

lemma must_loop_valid:
  "list_all (\<lambda>(field, v). field \<in> set ALL_COLUMNS) items \<Longrightarrow>
   must_loop items acc = Inr (acc @ map (\<lambda>(field, v). clause_for field v) items)"
  by (induction items arbitrary: acc) auto

lemma must_loop_invalid:
  "\<not> list_all (\<lambda>(field, v). field \<in> set ALL_COLUMNS) items \<Longrightarrow>
   must_loop items acc =
     Inl (ValueError (Invalid_field (hd (filter (\<lambda>field. field \<notin> set ALL_COLUMNS) (map fst items)))))"
  by (induction items arbitrary: acc) auto

lemmas column_defs = ALL_COLUMNS_def TEXT_COLUMNS_def KEYWORD_COLUMNS_def columns_def

text \<open>
  C7. \<open>advanced_search\<close> with an empty mapping fails with the \<open>ValueError\<close>
  \<open>No search fields provided\<close> (the specification's EmptyQueryError), and the list of
  the store's calls is what it was: the store is not called.
\<close>

theorem empty_mapping_rejected_before_store:
  "advanced_search es [] size_arg calls = (Inl (ValueError No_search_fields), calls)"
  by (simp add: advanced_search_def)

text \<open>
  C7 at a store without hits and size 5.
\<close>

theorem empty_mapping_rejected_before_store_witness:
  "advanced_search no_hits [] (Some 5) [] = (Inl (ValueError No_search_fields), [])"
  by (rule empty_mapping_rejected_before_store)

text \<open>
  C8. For a request whose columns are all declared (and, in AND-mode, whose mapping is
  not empty), each builder calls the store once, and the highlight fields of the query
  document are exactly the text columns of the request, each once; none is a keyword column
  (education, experience, skills).
\<close>

theorem highlight_names_text_columns:
  "(list_all (\<lambda>col. col \<in> set ALL_COLUMNS) cols \<longrightarrow>
      (\<exists>b. snd (search_columns es cols q size_arg calls) = calls @ [b] \<and>
           set (highlight_fields b) = set cols \<inter> set TEXT_COLUMNS \<and>
           distinct (highlight_fields b) \<and>
           set (highlight_fields b) \<inter> set KEYWORD_COLUMNS = {})) \<and>
   (field_queries \<noteq> [] \<and> list_all (\<lambda>(field, v). field \<in> set ALL_COLUMNS) field_queries \<longrightarrow>
      (\<exists>b. snd (advanced_search es field_queries size_arg calls) = calls @ [b] \<and>
           set (highlight_fields b) = fst ` set field_queries \<inter> set TEXT_COLUMNS \<and>
           distinct (highlight_fields b) \<and>
           set (highlight_fields b) \<inter> set KEYWORD_COLUMNS = {}))"
proof (intro conjI impI)
  assume "list_all (\<lambda>col. col \<in> set ALL_COLUMNS) cols"
  then show "\<exists>b. snd (search_columns es cols q size_arg calls) = calls @ [b] \<and>
           set (highlight_fields b) = set cols \<inter> set TEXT_COLUMNS \<and>
           distinct (highlight_fields b) \<and>
           set (highlight_fields b) \<inter> set KEYWORD_COLUMNS = {}"
    by (simp add: search_columns_def Let_def set_highlight_of distinct_highlight_of text_part_not_keyword
        split: sum.split)
next
  assume "field_queries \<noteq> [] \<and> list_all (\<lambda>(field, v). field \<in> set ALL_COLUMNS) field_queries"
  then show "\<exists>b. snd (advanced_search es field_queries size_arg calls) = calls @ [b] \<and>
           set (highlight_fields b) = fst ` set field_queries \<inter> set TEXT_COLUMNS \<and>
           distinct (highlight_fields b) \<and>
           set (highlight_fields b) \<inter> set KEYWORD_COLUMNS = {}"
    by (simp add: advanced_search_def Let_def must_loop_valid set_highlight_of
        distinct_highlight_of text_part_not_keyword split: sum.split)
qed

text \<open>
  C8 at the columns full_name and skills (OR-mode) and summary and skills (AND-mode).
\<close>

theorem highlight_names_text_columns_witness:
  "list_all (\<lambda>col. col \<in> set ALL_COLUMNS) [str_of ''full_name'', str_of ''skills''] \<and>
   (\<exists>b. snd (search_columns no_hits [str_of ''full_name'', str_of ''skills'']
               (str_of ''Python'') None []) = [] @ [b] \<and>
        set (highlight_fields b) = set [str_of ''full_name'', str_of ''skills''] \<inter> set TEXT_COLUMNS \<and>
        distinct (highlight_fields b) \<and>
        set (highlight_fields b) \<inter> set KEYWORD_COLUMNS = {}) \<and>
   [(str_of ''summary'', str_of ''ali''), (str_of ''skills'', str_of ''python'')] \<noteq> [] \<and>
   list_all (\<lambda>(field, v). field \<in> set ALL_COLUMNS)
     [(str_of ''summary'', str_of ''ali''), (str_of ''skills'', str_of ''python'')] \<and>
   (\<exists>b. snd (advanced_search no_hits
               [(str_of ''summary'', str_of ''ali''), (str_of ''skills'', str_of ''python'')]
               None []) = [] @ [b] \<and>
        set (highlight_fields b) =
          fst ` set [(str_of ''summary'', str_of ''ali''), (str_of ''skills'', str_of ''python'')]
            \<inter> set TEXT_COLUMNS \<and>
        distinct (highlight_fields b) \<and>
        set (highlight_fields b) \<inter> set KEYWORD_COLUMNS = {})"
proof -
  have a: "list_all (\<lambda>col. col \<in> set ALL_COLUMNS) [str_of ''full_name'', str_of ''skills'']"
    by (simp add: column_defs str_of_def)
  have b: "[(str_of ''summary'', str_of ''ali''), (str_of ''skills'', str_of ''python'')] \<noteq> [] \<and>
    list_all (\<lambda>(field, v). field \<in> set ALL_COLUMNS)
      [(str_of ''summary'', str_of ''ali''), (str_of ''skills'', str_of ''python'')]"
    by (simp add: column_defs str_of_def)
  from a b highlight_names_text_columns
    [where cols = "[str_of ''full_name'', str_of ''skills'']" and es = no_hits
       and q = "str_of ''Python''" and size_arg = None and calls = "[]"
       and field_queries = "[(str_of ''summary'', str_of ''ali''), (str_of ''skills'', str_of ''python'')]"]
  show ?thesis by blast
qed

text \<open>
  C9. Neither builder checks \<open>size\<close>. For a valid request the store is called with a
  query document whose size cap is the given integer, whatever it is, or 10 when it is
  left out, and the result is the store's answer or the store's error. The errors the
  builders raise themselves (undeclared column, empty mapping) are the same for every
  \<open>size\<close>.
\<close>

theorem size_passed_verbatim:
  "(list_all (\<lambda>col. col \<in> set ALL_COLUMNS) cols \<longrightarrow>
      (\<exists>b. search_columns es cols q size_arg calls =
             ((case es b of Inl e \<Rightarrow> Inl e | Inr resp \<Rightarrow> Inr (results_of resp)), calls @ [b]) \<and>
           size_cap b = (case size_arg of None \<Rightarrow> 10 | Some n \<Rightarrow> n))) \<and>
   (\<not> list_all (\<lambda>col. col \<in> set ALL_COLUMNS) cols \<longrightarrow>
      search_columns es cols q size_arg calls =
        (Inl (ValueError (Invalid_columns (filter (\<lambda>col. col \<notin> set ALL_COLUMNS) cols))), calls)) \<and>
   (field_queries \<noteq> [] \<and> list_all (\<lambda>(field, v). field \<in> set ALL_COLUMNS) field_queries \<longrightarrow>
      (\<exists>b. advanced_search es field_queries size_arg calls =
             ((case es b of Inl e \<Rightarrow> Inl e | Inr resp \<Rightarrow> Inr (results_of resp)), calls @ [b]) \<and>
           size_cap b = (case size_arg of None \<Rightarrow> 10 | Some n \<Rightarrow> n))) \<and>
   (field_queries = [] \<longrightarrow>
      advanced_search es field_queries size_arg calls = (Inl (ValueError No_search_fields), calls)) \<and>
   (field_queries \<noteq> [] \<and> \<not> list_all (\<lambda>(field, v). field \<in> set ALL_COLUMNS) field_queries \<longrightarrow>
      advanced_search es field_queries size_arg calls =
        (Inl (ValueError (Invalid_field
           (hd (filter (\<lambda>field. field \<notin> set ALL_COLUMNS) (map fst field_queries))))), calls))"
proof (intro conjI impI)
  assume "list_all (\<lambda>col. col \<in> set ALL_COLUMNS) cols"
  then show "\<exists>b. search_columns es cols q size_arg calls =
             ((case es b of Inl e \<Rightarrow> Inl e | Inr resp \<Rightarrow> Inr (results_of resp)), calls @ [b]) \<and>
           size_cap b = (case size_arg of None \<Rightarrow> 10 | Some n \<Rightarrow> n)"
    by (auto simp: search_columns_def Let_def split: sum.split)
next
  assume "\<not> list_all (\<lambda>col. col \<in> set ALL_COLUMNS) cols"
  then show "search_columns es cols q size_arg calls =
        (Inl (ValueError (Invalid_columns (filter (\<lambda>col. col \<notin> set ALL_COLUMNS) cols))), calls)"
    by (simp add: search_columns_def Let_def)
next
  assume "field_queries \<noteq> [] \<and> list_all (\<lambda>(field, v). field \<in> set ALL_COLUMNS) field_queries"
  then show "\<exists>b. advanced_search es field_queries size_arg calls =
             ((case es b of Inl e \<Rightarrow> Inl e | Inr resp \<Rightarrow> Inr (results_of resp)), calls @ [b]) \<and>
           size_cap b = (case size_arg of None \<Rightarrow> 10 | Some n \<Rightarrow> n)"
    by (auto simp: advanced_search_def Let_def must_loop_valid split: sum.split)
next
  assume "field_queries = []"
  then show "advanced_search es field_queries size_arg calls =
      (Inl (ValueError No_search_fields), calls)"
    by (simp add: advanced_search_def)
next
  assume "field_queries \<noteq> [] \<and>
    \<not> list_all (\<lambda>(field, v). field \<in> set ALL_COLUMNS) field_queries"
  then show "advanced_search es field_queries size_arg calls =
        (Inl (ValueError (Invalid_field
           (hd (filter (\<lambda>field. field \<notin> set ALL_COLUMNS) (map fst field_queries))))), calls)"
    by (simp add: advanced_search_def Let_def must_loop_invalid)
qed

text \<open>
  C9 at the sizes -3 and 0, and at the undeclared column \<open>age\<close>.
\<close>

theorem size_passed_verbatim_witness:
  "(\<exists>b. search_columns no_hits [str_of ''full_name''] (str_of ''a'') (Some (- 3)) [] =
          ((case no_hits b of Inl e \<Rightarrow> Inl e | Inr resp \<Rightarrow> Inr (results_of resp)), [] @ [b]) \<and>
        size_cap b = - 3) \<and>
   (\<exists>b. advanced_search no_hits [(str_of ''skills'', str_of ''a'')] (Some 0) [] =
          ((case no_hits b of Inl e \<Rightarrow> Inl e | Inr resp \<Rightarrow> Inr (results_of resp)), [] @ [b]) \<and>
        size_cap b = 0) \<and>
   search_columns no_hits [str_of ''age''] (str_of ''a'') (Some (- 3)) [] =
     (Inl (ValueError (Invalid_columns [str_of ''age''])), []) \<and>
   advanced_search no_hits [] (Some (- 3)) [] = (Inl (ValueError No_search_fields), []) \<and>
   advanced_search no_hits [(str_of ''age'', str_of ''a'')] (Some (- 3)) [] =
     (Inl (ValueError (Invalid_field (str_of ''age''))), [])"
proof -
  have v1: "list_all (\<lambda>col. col \<in> set ALL_COLUMNS) [str_of ''full_name'']"
    by (simp add: column_defs str_of_def)
  have v2: "[(str_of ''skills'', str_of ''a'')] \<noteq> [] \<and>
    list_all (\<lambda>(field, v). field \<in> set ALL_COLUMNS) [(str_of ''skills'', str_of ''a'')]"
    by (simp add: column_defs str_of_def)
  have i0: "str_of ''age'' \<notin> set ALL_COLUMNS"
    by (simp add: column_defs str_of_def)
  have i1: "\<not> list_all (\<lambda>col. col \<in> set ALL_COLUMNS) [str_of ''age'']"
    using i0 by simp
  have i2: "[(str_of ''age'', str_of ''a'')] \<noteq> [] \<and>
    \<not> list_all (\<lambda>(field, v). field \<in> set ALL_COLUMNS) [(str_of ''age'', str_of ''a'')]"
    using i0 by simp
  note t1 = size_passed_verbatim
    [where cols = "[str_of ''full_name'']" and es = no_hits and q = "str_of ''a''"
       and size_arg = "Some (- 3)" and calls = "[]" and field_queries = "[]"]
  note t2 = size_passed_verbatim
    [where cols = "[str_of ''age'']" and es = no_hits and q = "str_of ''a''"
       and size_arg = "Some (- 3)" and calls = "[]"
       and field_queries = "[(str_of ''age'', str_of ''a'')]"]
  note t3 = size_passed_verbatim
    [where cols = "[str_of ''age'']" and es = no_hits and q = "str_of ''a''"
       and size_arg = "Some 0" and calls = "[]"
       and field_queries = "[(str_of ''skills'', str_of ''a'')]"]
  have p1: "\<exists>b. search_columns no_hits [str_of ''full_name''] (str_of ''a'') (Some (- 3)) [] =
          ((case no_hits b of Inl e \<Rightarrow> Inl e | Inr resp \<Rightarrow> Inr (results_of resp)), [] @ [b]) \<and>
        size_cap b = - 3"
    using t1 v1 by simp
  have p2: "\<exists>b. advanced_search no_hits [(str_of ''skills'', str_of ''a'')] (Some 0) [] =
          ((case no_hits b of Inl e \<Rightarrow> Inl e | Inr resp \<Rightarrow> Inr (results_of resp)), [] @ [b]) \<and>
        size_cap b = 0"
    using t3 v2 by simp
  have p3: "search_columns no_hits [str_of ''age''] (str_of ''a'') (Some (- 3)) [] =
     (Inl (ValueError (Invalid_columns [str_of ''age''])), [])"
    using t2 i1 i0 by simp
  have p4: "advanced_search no_hits [] (Some (- 3)) [] = (Inl (ValueError No_search_fields), [])"
    using t1 by simp
  have p5: "advanced_search no_hits [(str_of ''age'', str_of ''a'')] (Some (- 3)) [] =
     (Inl (ValueError (Invalid_field (str_of ''age''))), [])"
    using t2 i2 i0 by simp
  from p1 p2 p3 p4 p5 show ?thesis by blast
qed

text \<open>
  C4, at the fields \<open>foo\<close> and \<open>bar\<close>, both undeclared: \<open>advanced_search\<close> raises
  \<open>Invalid field: foo\<close>, which names the first offending field only, where
  \<open>search_columns\<close> raises \<open>Invalid columns: ['foo', 'bar']\<close>. Neither calls the
  store.
\<close>

theorem advanced_search_names_first_invalid_field:
  "advanced_search no_hits [(str_of ''foo'', str_of ''x''), (str_of ''bar'', str_of ''y'')] None []
     = (Inl (ValueError (Invalid_field (str_of ''foo''))), []) \<and>
   search_columns no_hits [str_of ''foo'', str_of ''bar''] (str_of ''x'') None []
     = (Inl (ValueError (Invalid_columns [str_of ''foo'', str_of ''bar''])), [])"
proof -
  have f: "str_of ''foo'' \<notin> set ALL_COLUMNS" and b: "str_of ''bar'' \<notin> set ALL_COLUMNS"
    by (simp_all add: column_defs str_of_def)
  show ?thesis
    using f b by (simp add: advanced_search_def search_columns_def)
qed

section \<open>The record pipeline\<close>

lemma cleaner_names: "map fst (cleaners le) = columns"
  by (simp add: cleaners_def columns_def)

lemma get_cleaner_known:
  "col \<in> set columns \<Longrightarrow> \<exists>f. get_cleaner le col = Inr f \<and> (col, f) \<in> set (cleaners le)"
proof -
  assume "col \<in> set columns"
  then have "col \<in> fst ` set (cleaners le)"
    using cleaner_names [of le] by (metis set_map)
  then obtain f where "map_of (cleaners le) col = Some f"
    by (metis map_of_eq_None_iff not_Some_eq)
  then show ?thesis by (auto simp: get_cleaner_def dest: map_of_SomeD)
qed

lemma get_cleaner_unknown:
  "col \<notin> set columns \<Longrightarrow> get_cleaner le col = Inl (ValueError (No_cleaner_found col))"
proof -
  assume "col \<notin> set columns"
  then have "col \<notin> fst ` set (cleaners le)"
    using cleaner_names [of le] by (metis set_map)
  then have "map_of (cleaners le) col = None" by (simp add: map_of_eq_None_iff)
  then show ?thesis by (simp add: get_cleaner_def)
qed

lemma get_cleaners_columns: "get_cleaners le columns = Inr (cleaners le)"
  by (simp add: columns_def get_cleaner_simps cleaners_def)

lemma ingest_eq:
  assumes "list_all (\<lambda>col. col \<in> set df_columns) columns"
  shows "ingest le df_columns rows =
         Inr (map (build_doc (cleaners le)) (drop_duplicates columns rows))"
proof -
  have "str_of ''full_name'' \<in> set df_columns"
    using assms by (simp add: columns_def)
  then have ne: "df_columns \<noteq> []" by auto
  have "frame_drop_duplicates columns df_columns rows = Inr (drop_duplicates columns rows)"
    using assms ne
    by (cases "rows = []") (simp_all add: frame_drop_duplicates_def drop_duplicates_def)
  then show ?thesis by (simp add: ingest_def get_cleaners_columns)
qed

lemma drop_duplicates_from_index:
  "drop_duplicates_from key seen rs =
     map (\<lambda>i. rs ! i)
       (filter (\<lambda>i. key (rs ! i) \<notin> set seen \<and> (\<forall>j<i. key (rs ! j) \<noteq> key (rs ! i)))
          [0..<length rs])"
proof (induction rs arbitrary: seen)
  case Nil
  show ?case by simp
next
  case (Cons r rs)
  have upt: "[0..<Suc (length rs)] = 0 # map Suc [0..<length rs]"
    by (metis upt_conv_Cons map_Suc_upt zero_less_Suc)
  show ?case
  proof (cases "key r \<in> set seen")
    case True
    have "filter (\<lambda>i. key (rs ! i) \<notin> set seen \<and> key r \<noteq> key (rs ! i) \<and>
                     (\<forall>j<i. key (rs ! j) \<noteq> key (rs ! i))) [0..<length rs]
        = filter (\<lambda>i. key (rs ! i) \<notin> set seen \<and> (\<forall>j<i. key (rs ! j) \<noteq> key (rs ! i)))
            [0..<length rs]"
      using True by (intro filter_cong) auto
    with True show ?thesis
      by (simp add: upt Cons.IH filter_map comp_def All_less_Suc2 del: upt_Suc)
  next
    case False
    have "filter (\<lambda>i. key (rs ! i) \<notin> set seen \<and> key r \<noteq> key (rs ! i) \<and>
                     (\<forall>j<i. key (rs ! j) \<noteq> key (rs ! i))) [0..<length rs]
        = filter (\<lambda>i. key (rs ! i) \<notin> set (key r # seen) \<and>
                     (\<forall>j<i. key (rs ! j) \<noteq> key (rs ! i))) [0..<length rs]"
      by (intro filter_cong) auto
    with False show ?thesis
      by (simp add: upt Cons.IH filter_map comp_def All_less_Suc2 del: upt_Suc)
  qed
qed

lemma document_shape:
  "build_doc (cleaners le) r =
     [(str_of ''full_name'', Scalar (clean_full_name (cell_text r (str_of ''full_name'')))),
      (str_of ''job_title'', Scalar (clean_job_title (cell_text r (str_of ''job_title'')))),
      (str_of ''industry'', Scalar (clean_industry (cell_text r (str_of ''industry'')))),
      (str_of ''summary'', Scalar (clean_summary (cell_text r (str_of ''summary'')))),
      (str_of ''location_country'',
         Scalar (clean_location_country (cell_text r (str_of ''location_country'')))),
      (str_of ''education'',
         Tags (if clean_education le (cell_text r (str_of ''education'')) \<noteq> []
               then split_items (clean_education le (cell_text r (str_of ''education'')))
               else [])),
      (str_of ''experience'',
         Tags (if clean_experience le (cell_text r (str_of ''experience'')) \<noteq> []
               then split_items (clean_experience le (cell_text r (str_of ''experience'')))
               else [])),
      (str_of ''skills'',
         Tags (if clean_skills le (cell_text r (str_of ''skills'')) \<noteq> []
               then split_items (clean_skills le (cell_text r (str_of ''skills'')))
               else [])),
      (str_of ''job_summary'', Scalar (clean_job_summary (cell_text r (str_of ''job_summary''))))]"
  by (simp add: build_doc_def cleaners_def doc_field_def KEYWORD_COLUMNS_def str_of_def Let_def)

lemma cell_text_row_with: "cell_text (row_with col s) c = (if c = col then s else [])"
  by (simp add: cell_text_def row_with_def)

lemma clean_empty:
  "clean_full_name [] = []" "clean_job_title [] = []" "clean_industry [] = []"
  "clean_summary [] = []" "clean_location_country [] = []" "clean_education le [] = []"
  "clean_experience le [] = []" "clean_skills le [] = []" "clean_job_summary [] = []"
  by (simp_all add: clean_full_name_def clean_job_title_def clean_industry_def
      clean_summary_def clean_location_country_def clean_education_def clean_experience_def
      clean_skills_def clean_job_summary_def)

lemma column_names_differ:
  "str_of ''full_name'' \<noteq> str_of ''job_title''" "str_of ''full_name'' \<noteq> str_of ''industry''"
  "str_of ''full_name'' \<noteq> str_of ''summary''" "str_of ''full_name'' \<noteq> str_of ''location_country''"
  "str_of ''full_name'' \<noteq> str_of ''education''" "str_of ''full_name'' \<noteq> str_of ''experience''"
  "str_of ''full_name'' \<noteq> str_of ''skills''" "str_of ''full_name'' \<noteq> str_of ''job_summary''"
  "str_of ''education'' \<noteq> str_of ''job_title''" "str_of ''education'' \<noteq> str_of ''industry''"
  "str_of ''education'' \<noteq> str_of ''summary''" "str_of ''education'' \<noteq> str_of ''location_country''"
  "str_of ''education'' \<noteq> str_of ''experience''"
  "str_of ''education'' \<noteq> str_of ''skills''" "str_of ''education'' \<noteq> str_of ''job_summary''"
  by (simp_all add: str_of_def)

lemma full_name_doc:
  "build_doc (cleaners le) (row_with (str_of ''full_name'') s) =
     [(str_of ''full_name'', Scalar (clean_full_name s)),
      (str_of ''job_title'', Scalar []), (str_of ''industry'', Scalar []),
      (str_of ''summary'', Scalar []), (str_of ''location_country'', Scalar []),
      (str_of ''education'', Tags []), (str_of ''experience'', Tags []),
      (str_of ''skills'', Tags []), (str_of ''job_summary'', Scalar [])]"
  using column_names_differ
  by (simp add: document_shape cell_text_row_with clean_empty eq_commute [of "str_of ''full_name''"])

lemma education_doc:
  "build_doc (cleaners le) (row_with (str_of ''education'') s) =
     [(str_of ''full_name'', Scalar []),
      (str_of ''job_title'', Scalar []), (str_of ''industry'', Scalar []),
      (str_of ''summary'', Scalar []), (str_of ''location_country'', Scalar []),
      (str_of ''education'',
         Tags (if clean_education le s \<noteq> [] then split_items (clean_education le s) else [])),
      (str_of ''experience'', Tags []),
      (str_of ''skills'', Tags []), (str_of ''job_summary'', Scalar [])]"
  using column_names_differ
  by (simp add: document_shape cell_text_row_with clean_empty eq_commute [of "str_of ''education''"])

lemma columns_in_columns: "list_all (\<lambda>col. col \<in> set columns) columns"
  by (simp add: list_all_iff)

lemmas full_name_defs =
  clean_full_name_def str_of_def strip_def class_defs search_def search_dollar_def Chr_def
  AnyChar_def Opt_def ignorecase_def drive_letter_def file_extension_def Let_def

lemma jane: "clean_full_name (str_of ''Jane'') = str_of ''Jane''"
  by (simp add: full_name_defs)

lemma jane1: "clean_full_name (str_of ''Jane1'') = str_of ''Jane''"
  by (simp add: full_name_defs)

lemma jane_rows_differ:
  "map (row_with (str_of ''full_name'') (str_of ''Jane1'')) columns \<noteq>
   map (row_with (str_of ''full_name'') (str_of ''Jane'')) columns"
  by (simp add: columns_def row_with_def str_of_def)

text \<open>
  C2, as the code has it. \<open>ingest\<close> drops a row exactly when an earlier row has the
  same raw cells in the nine columns, keeps the first occurrence and the order, and
  passes on one document per row it kept.
\<close>

theorem ingest_drops_raw_duplicates:
  "list_all (\<lambda>col. col \<in> set df_columns) columns \<Longrightarrow>
   ingest le df_columns rows =
     Inr (map (build_doc (cleaners le))
           (map (\<lambda>i. rows ! i)
              (filter (\<lambda>i. \<forall>j<i. map (rows ! j) columns \<noteq> map (rows ! i) columns)
                 [0..<length rows])))"
  by (simp add: ingest_eq drop_duplicates_def drop_duplicates_from_index)

text \<open>
  C2 at three rows, the second a copy of the first.
\<close>

theorem ingest_drops_raw_duplicates_witness:
  "list_all (\<lambda>col. col \<in> set columns) columns \<and>
   ingest literal_eval_examples columns
     [row_with (str_of ''full_name'') (str_of ''Jane''),
      row_with (str_of ''full_name'') (str_of ''Jane''),
      row_with (str_of ''full_name'') (str_of ''Jane1'')] =
     Inr [build_doc (cleaners literal_eval_examples) (row_with (str_of ''full_name'') (str_of ''Jane'')),
          build_doc (cleaners literal_eval_examples) (row_with (str_of ''full_name'') (str_of ''Jane1''))]"
proof -
  define r1 where "r1 = row_with (str_of ''full_name'') (str_of ''Jane'')"
  define r2 where "r2 = row_with (str_of ''full_name'') (str_of ''Jane1'')"
  have k: "map r1 columns \<noteq> map r2 columns"
    unfolding r1_def r2_def using jane_rows_differ by (rule not_sym)
  have idx: "filter (\<lambda>i. \<forall>j<i. map ([r1, r1, r2] ! j) columns \<noteq> map ([r1, r1, r2] ! i) columns)
               [0..<length [r1, r1, r2]] = [0, Suc (Suc 0)]"
    using k by (simp add: All_less_Suc del: map_eq_conv)
  have "ingest literal_eval_examples columns [r1, r1, r2] =
          Inr [build_doc (cleaners literal_eval_examples) r1,
               build_doc (cleaners literal_eval_examples) r2]"
    using ingest_drops_raw_duplicates [OF columns_in_columns, of literal_eval_examples "[r1, r1, r2]"]
    unfolding idx by simp
  with columns_in_columns show ?thesis unfolding r1_def r2_def by simp
qed

text \<open>
  C2 as stated fails. The full names \<open>Jane\<close> and \<open>Jane1\<close> are different raw cells
  with one cleaned value, \<open>Jane\<close>: the two rows give two equal documents, where the
  specification's pipeline gives one.
\<close>

theorem ingest_keeps_rows_that_clean_alike:
  "row_with (str_of ''full_name'') (str_of ''Jane'') (str_of ''full_name'') \<noteq>
     row_with (str_of ''full_name'') (str_of ''Jane1'') (str_of ''full_name'') \<and>
   build_doc (cleaners literal_eval_examples) (row_with (str_of ''full_name'') (str_of ''Jane'')) =
     build_doc (cleaners literal_eval_examples) (row_with (str_of ''full_name'') (str_of ''Jane1'')) \<and>
   ingest literal_eval_examples columns
     [row_with (str_of ''full_name'') (str_of ''Jane''),
      row_with (str_of ''full_name'') (str_of ''Jane1'')] =
     Inr [build_doc (cleaners literal_eval_examples) (row_with (str_of ''full_name'') (str_of ''Jane'')),
          build_doc (cleaners literal_eval_examples) (row_with (str_of ''full_name'') (str_of ''Jane1''))] \<and>
   spec_build_documents (cleaners literal_eval_examples)
     [row_with (str_of ''full_name'') (str_of ''Jane''),
      row_with (str_of ''full_name'') (str_of ''Jane1'')] =
     [build_doc (cleaners literal_eval_examples) (row_with (str_of ''full_name'') (str_of ''Jane''))]"
proof -
  have a: "row_with (str_of ''full_name'') (str_of ''Jane'') (str_of ''full_name'') \<noteq>
     row_with (str_of ''full_name'') (str_of ''Jane1'') (str_of ''full_name'')"
    by (simp add: row_with_def str_of_def)
  have b: "build_doc (cleaners literal_eval_examples) (row_with (str_of ''full_name'') (str_of ''Jane'')) =
     build_doc (cleaners literal_eval_examples) (row_with (str_of ''full_name'') (str_of ''Jane1''))"
    by (simp add: full_name_doc jane jane1)
  have c: "ingest literal_eval_examples columns
     [row_with (str_of ''full_name'') (str_of ''Jane''),
      row_with (str_of ''full_name'') (str_of ''Jane1'')] =
     Inr [build_doc (cleaners literal_eval_examples) (row_with (str_of ''full_name'') (str_of ''Jane'')),
          build_doc (cleaners literal_eval_examples) (row_with (str_of ''full_name'') (str_of ''Jane1''))]"
    using jane_rows_differ
    by (simp add: ingest_eq [OF columns_in_columns] drop_duplicates_def)
  have d: "spec_build_documents (cleaners literal_eval_examples)
     [row_with (str_of ''full_name'') (str_of ''Jane''),
      row_with (str_of ''full_name'') (str_of ''Jane1'')] =
     [build_doc (cleaners literal_eval_examples) (row_with (str_of ''full_name'') (str_of ''Jane''))]"
    using b by (simp add: spec_build_documents_def)
  from a b c d show ?thesis by blast
qed

section \<open>The education column\<close>

lemmas education_defs =
  clean_education_def Let_def looks_like_list_def startswith_def endswith_def
  literal_eval_examples_def school_entry_def dict_get_def strip_def str_of_def class_defs

lemma education_loop_acc:
  "education_loop data acc = acc @ filter (\<lambda>name. name \<noteq> []) (spec_school_names data)"
proof (induction data arbitrary: acc)
  case Nil
  show ?case by (simp add: spec_school_names_def map_filter_simps)
next
  case (Cons item data)
  show ?case
    by (simp add: Cons.IH spec_school_names_def spec_school_name_def
        split: pyval.split)
qed

text \<open>
  C5, as the code has it. The names \<open>clean_education\<close> extracts from a parsed list
  are, in element order, the stripped names of the elements that are a mapping with a
  \<open>school\<close> mapping with a string \<open>name\<close>, without the names that are empty once
  stripped; its result is these names joined by \<open> | \<close>.
\<close>

theorem education_names_projection:
  "education_loop data [] = filter (\<lambda>name. name \<noteq> []) (spec_school_names data) \<and>
   (text0 \<noteq> [] \<and> looks_like_list (strip text0) \<and>
    literal_eval (strip text0) = Some (PList data) \<longrightarrow>
    clean_education literal_eval text0 =
      join (str_of '' | '') (filter (\<lambda>name. name \<noteq> []) (spec_school_names data)))"
  by (simp add: clean_education_def education_loop_acc [of data "[]", simplified])

text \<open>
  C5 at a list of two schools, the first with a blank name.
\<close>

theorem education_names_projection_witness:
  "str_of ''[{'school': {'name': ' '}}, {'school': {'name': 'MIT'}}]'' \<noteq> [] \<and>
   looks_like_list (strip (str_of ''[{'school': {'name': ' '}}, {'school': {'name': 'MIT'}}]'')) \<and>
   literal_eval_examples (strip (str_of ''[{'school': {'name': ' '}}, {'school': {'name': 'MIT'}}]''))
     = Some (PList [school_entry (str_of '' ''), school_entry (str_of ''MIT'')]) \<and>
   education_loop [school_entry (str_of '' ''), school_entry (str_of ''MIT'')] [] = [str_of ''MIT''] \<and>
   clean_education literal_eval_examples
     (str_of ''[{'school': {'name': ' '}}, {'school': {'name': 'MIT'}}]'') = str_of ''MIT''"
proof -
  let ?t = "str_of ''[{'school': {'name': ' '}}, {'school': {'name': 'MIT'}}]''"
  let ?data = "[school_entry (str_of '' ''), school_entry (str_of ''MIT'')]"
  have s: "strip ?t = ?t"
    by (simp add: strip_def str_of_def class_defs)
  have a: "?t \<noteq> []" by (simp add: str_of_def)
  have b: "looks_like_list (strip ?t)"
    unfolding s by (simp add: looks_like_list_def startswith_def endswith_def str_of_def)
  have c: "literal_eval_examples (strip ?t) = Some (PList ?data)"
    unfolding s by (simp add: literal_eval_examples_def str_of_def)
  have p: "filter (\<lambda>name. name \<noteq> []) (spec_school_names ?data) = [str_of ''MIT'']"
    by (simp add: spec_school_names_def spec_school_name_def school_entry_def
        dict_get_def strip_def str_of_def class_defs)
  note t = education_names_projection [of ?data ?t literal_eval_examples]
  have d: "education_loop ?data [] = [str_of ''MIT'']"
    using t p by simp
  have e: "clean_education literal_eval_examples ?t = str_of ''MIT''"
    using t a b c p by simp
  from a b c d e show ?thesis by blast
qed

text \<open>
  C5 as stated fails: a name that is blank is not emitted, where the specification's
  projection has the empty string for it.
\<close>

theorem education_skips_empty_names:
  "education_loop [school_entry (str_of '' ''), school_entry (str_of ''MIT'')] [] = [str_of ''MIT''] \<and>
   spec_school_names [school_entry (str_of '' ''), school_entry (str_of ''MIT'')] = [[], str_of ''MIT'']"
  by (simp add: spec_school_names_def spec_school_name_def school_entry_def
      dict_get_def strip_def str_of_def class_defs)

text \<open>
  C3, at a school whose name is \<open>A|B\<close>: the cleaner extracts the one name \<open>A|B\<close>,
  and the document \<open>ingest\<close> passes on holds the two elements \<open>A\<close> and \<open>B\<close> for the
  education column.
\<close>

theorem pipe_in_school_name_is_split:
  "education_loop [school_entry (str_of ''A|B'')] [] = [str_of ''A|B''] \<and>
   ingest literal_eval_examples columns
     [row_with (str_of ''education'') (str_of ''[{'school': {'name': 'A|B'}}]'')] =
     Inr [[(str_of ''full_name'', Scalar []),
           (str_of ''job_title'', Scalar []), (str_of ''industry'', Scalar []),
           (str_of ''summary'', Scalar []), (str_of ''location_country'', Scalar []),
           (str_of ''education'', Tags [str_of ''A'', str_of ''B'']),
           (str_of ''experience'', Tags []),
           (str_of ''skills'', Tags []), (str_of ''job_summary'', Scalar [])]]"
proof -
  have l: "education_loop [school_entry (str_of ''A|B'')] [] = [str_of ''A|B'']"
    by (simp add: school_entry_def dict_get_def strip_def str_of_def class_defs)
  have e: "clean_education literal_eval_examples (str_of ''[{'school': {'name': 'A|B'}}]'')
             = str_of ''A|B''"
    by (simp add: education_defs)
  have n: "str_of ''A|B'' \<noteq> []" by (simp add: str_of_def)
  have s: "split_items (str_of ''A|B'') = [str_of ''A'', str_of ''B'']"
    by (simp add: split_items_def strip_def str_of_def class_defs)
  have i: "ingest literal_eval_examples columns
     [row_with (str_of ''education'') (str_of ''[{'school': {'name': 'A|B'}}]'')] =
     Inr [[(str_of ''full_name'', Scalar []),
           (str_of ''job_title'', Scalar []), (str_of ''industry'', Scalar []),
           (str_of ''summary'', Scalar []), (str_of ''location_country'', Scalar []),
           (str_of ''education'', Tags [str_of ''A'', str_of ''B'']),
           (str_of ''experience'', Tags []),
           (str_of ''skills'', Tags []), (str_of ''job_summary'', Scalar [])]]"
    using n by (simp add: ingest_eq [OF columns_in_columns] drop_duplicates_def education_doc e s)
  from l i show ?thesis by (rule conjI)
qed

section \<open>Totality of the cleaners\<close>

lemma map_filter_all_None: "list_all (\<lambda>x. f x = None) xs \<Longrightarrow> List.map_filter f xs = []"
  by (induction xs) auto

lemma keyword_cleaners_degrade:
  assumes "\<not> looks_like_list (strip raw) \<or> le (strip raw) = None \<or>
           (\<exists>v. le (strip raw) = Some v \<and> (\<forall>items. v \<noteq> PList items))"
  shows "clean_education le raw = []" and "clean_experience le raw = []"
    and "clean_skills le raw = []"
  using assms
  by (auto simp: clean_education_def clean_experience_def clean_skills_def Let_def
      split: option.split pyval.split)

lemma clean_education_no_names:
  assumes "le (strip raw) = Some (PList items)"
    and "list_all (\<lambda>item. spec_school_name item = None) items"
  shows "clean_education le raw = []"
  using assms
  by (simp add: clean_education_def Let_def education_loop_acc [of items "[]", simplified]
      spec_school_names_def map_filter_all_None)

text \<open>The runs of the list cleaners return the values of the cleaners.\<close>

lemma strs_of_strs: "strs_of (map PStr ss) = Inr ss"
  by (induction ss) auto

lemma py_join_strs: "py_join sep (map PStr ss) = Inr (join sep ss)"
  by (simp add: py_join_def strs_of_strs)

lemma education_item_run_eq:
  "education_item_run item (map PStr acc) = Inr (map PStr (education_loop [item] acc))"
  by (simp add: education_item_run_def is_dict_def is_str_def split: pyval.split)

lemma education_loop_step: "education_loop (item # data) acc = education_loop data (education_loop [item] acc)"
  by simp

lemma education_loop_run_eq:
  "education_loop_run items (map PStr acc) = Inr (map PStr (education_loop items acc))"
proof (induction items arbitrary: acc)
  case Nil
  show ?case by simp
next
  case (Cons item data)
  have "education_loop_run (item # data) (map PStr acc)
          = education_loop_run data (map PStr (education_loop [item] acc))"
    by (simp only: education_loop_run.simps education_item_run_eq and_then.simps)
  also have "\<dots> = Inr (map PStr (education_loop data (education_loop [item] acc)))"
    by (rule Cons.IH)
  finally show ?case by (simp only: education_loop_step [symmetric])
qed

lemma clean_education_run_eq: "clean_education_run le raw = Inr (clean_education le raw)"
  using education_loop_run_eq [of _ "[]"]
  by (simp add: clean_education_run_def clean_education_def Let_def py_join_strs
      split: option.split pyval.split)

lemma sub_name_run_eq: "sub_name_run (PDict d) key = Inr (PStr (sub_name d key))"
  by (simp add: sub_name_run_def sub_name_def is_dict_def is_str_def split: pyval.split)

lemma experience_item_run_eq:
  "experience_item_run to_str item (map PStr acc) = Inr (map PStr (experience_loop [item] acc))"
proof (cases "is_dict item")
  case True
  then obtain d where "item = PDict d" by (auto simp: is_dict_def split: pyval.splits)
  then show ?thesis
    by (simp add: experience_item_run_def is_dict_def sub_name_run_eq format_value_def Let_def)
next
  case False
  then show ?thesis
    by (simp add: experience_item_run_def is_dict_def split: pyval.splits)
qed

lemma experience_loop_step:
  "experience_loop (item # data) acc = experience_loop data (experience_loop [item] acc)"
  by simp

lemma experience_loop_run_eq:
  "experience_loop_run to_str items (map PStr acc) = Inr (map PStr (experience_loop items acc))"
proof (induction items arbitrary: acc)
  case Nil
  show ?case by simp
next
  case (Cons item data)
  have "experience_loop_run to_str (item # data) (map PStr acc)
          = experience_loop_run to_str data (map PStr (experience_loop [item] acc))"
    by (simp only: experience_loop_run.simps experience_item_run_eq and_then.simps)
  also have "\<dots> = Inr (map PStr (experience_loop data (experience_loop [item] acc)))"
    by (rule Cons.IH)
  finally show ?case by (simp only: experience_loop_step [symmetric])
qed

lemma clean_experience_run_eq:
  "clean_experience_run le to_str raw = Inr (clean_experience le raw)"
  using experience_loop_run_eq [of _ _ "[]"]
  by (simp add: clean_experience_run_def clean_experience_def Let_def py_join_strs
      split: option.split pyval.split)

lemma skills_item_run_eq:
  "skills_item_run item (map PStr acc) = Inr (map PStr (skills_loop [item] acc))"
  by (simp add: skills_item_run_def is_str_def Let_def split: pyval.split)

lemma skills_loop_step: "skills_loop (item # data) acc = skills_loop data (skills_loop [item] acc)"
  by simp

lemma skills_loop_run_eq:
  "skills_loop_run items (map PStr acc) = Inr (map PStr (skills_loop items acc))"
proof (induction items arbitrary: acc)
  case Nil
  show ?case by simp
next
  case (Cons item data)
  have "skills_loop_run (item # data) (map PStr acc)
          = skills_loop_run data (map PStr (skills_loop [item] acc))"
    by (simp only: skills_loop_run.simps skills_item_run_eq and_then.simps)
  also have "\<dots> = Inr (map PStr (skills_loop data (skills_loop [item] acc)))"
    by (rule Cons.IH)
  finally show ?case by (simp only: skills_loop_step [symmetric])
qed

lemma clean_skills_run_eq: "clean_skills_run le raw = Inr (clean_skills le raw)"
  using skills_loop_run_eq [of _ "[]"]
  by (simp add: clean_skills_run_def clean_skills_def Let_def py_join_strs
      split: option.split pyval.split)

lemma run_names: "map fst (cleaner_runs le to_str) = columns"
  by (simp add: cleaner_runs_def columns_def)

lemma normalize_run_unknown:
  assumes "col \<notin> set columns"
  shows "normalize_run le to_str col raw = Inl (Raised (ValueError (No_cleaner_found col)))"
proof -
  have "col \<notin> fst ` set (cleaner_runs le to_str)"
    using assms run_names [of le to_str] by (metis set_map)
  then have "map_of (cleaner_runs le to_str) col = None" by (simp add: map_of_eq_None_iff)
  then show ?thesis by (simp add: normalize_run_def)
qed

lemma normalize_run_known:
  assumes "col \<in> set columns"
  shows "\<exists>v. normalize_run le to_str col raw = Inr v \<and> normalize_col le col raw = Inr v"
proof -
  from assms consider "col = str_of ''full_name''" | "col = str_of ''job_title''"
    | "col = str_of ''industry''" | "col = str_of ''summary''"
    | "col = str_of ''location_country''" | "col = str_of ''education''"
    | "col = str_of ''experience''" | "col = str_of ''skills''" | "col = str_of ''job_summary''"
    by (auto simp: columns_def)
  then show ?thesis
  proof cases
    case 1
    have "map_of (cleaner_runs le to_str) (str_of ''full_name'') = Some (\<lambda>raw. Inr (clean_full_name raw))"
      by (simp add: cleaner_runs_def str_of_def)
    with 1 show ?thesis by (simp add: normalize_run_def normalize_col_def get_cleaner_full_name)
  next
    case 2
    have "map_of (cleaner_runs le to_str) (str_of ''job_title'') = Some (\<lambda>raw. Inr (clean_job_title raw))"
      by (simp add: cleaner_runs_def str_of_def)
    with 2 show ?thesis by (simp add: normalize_run_def normalize_col_def get_cleaner_job_title)
  next
    case 3
    have "map_of (cleaner_runs le to_str) (str_of ''industry'') = Some (\<lambda>raw. Inr (clean_industry raw))"
      by (simp add: cleaner_runs_def str_of_def)
    with 3 show ?thesis by (simp add: normalize_run_def normalize_col_def get_cleaner_industry)
  next
    case 4
    have "map_of (cleaner_runs le to_str) (str_of ''summary'') = Some (\<lambda>raw. Inr (clean_summary raw))"
      by (simp add: cleaner_runs_def str_of_def)
    with 4 show ?thesis by (simp add: normalize_run_def normalize_col_def get_cleaner_summary)
  next
    case 5
    have "map_of (cleaner_runs le to_str) (str_of ''location_country'')
            = Some (\<lambda>raw. Inr (clean_location_country raw))"
      by (simp add: cleaner_runs_def str_of_def)
    with 5 show ?thesis
      by (simp add: normalize_run_def normalize_col_def get_cleaner_location_country)
  next
    case 6
    have "map_of (cleaner_runs le to_str) (str_of ''education'') = Some (clean_education_run le)"
      by (simp add: cleaner_runs_def str_of_def)
    with 6 show ?thesis
      by (simp add: normalize_run_def normalize_col_def get_cleaner_education clean_education_run_eq)
  next
    case 7
    have "map_of (cleaner_runs le to_str) (str_of ''experience'')
            = Some (clean_experience_run le to_str)"
      by (simp add: cleaner_runs_def str_of_def)
    with 7 show ?thesis
      by (simp add: normalize_run_def normalize_col_def get_cleaner_experience
          clean_experience_run_eq)
  next
    case 8
    have "map_of (cleaner_runs le to_str) (str_of ''skills'') = Some (clean_skills_run le)"
      by (simp add: cleaner_runs_def str_of_def)
    with 8 show ?thesis
      by (simp add: normalize_run_def normalize_col_def get_cleaner_skills clean_skills_run_eq)
  next
    case 9
    have "map_of (cleaner_runs le to_str) (str_of ''job_summary'') = Some (\<lambda>raw. Inr (clean_job_summary raw))"
      by (simp add: cleaner_runs_def str_of_def)
    with 9 show ?thesis by (simp add: normalize_run_def normalize_col_def get_cleaner_job_summary)
  qed
qed

lemma normalize_run_value:
  assumes "col \<in> set columns" and "normalize_col le col raw = Inr v"
  shows "normalize_run le to_str col raw = Inr v"
  using normalize_run_known [OF assms(1), of le to_str raw] assms(2) by auto

lemma has_school_name_iff:
  "has_name_under (str_of ''school'') item \<longleftrightarrow> spec_school_name item \<noteq> None"
  by (simp add: has_name_under_def spec_school_name_def split: pyval.split)

lemma no_school_name: "\<not> has_name_under (str_of ''school'') item \<Longrightarrow> spec_school_name item = None"
  by (simp add: has_school_name_iff)

lemma sub_name_absent_imp: "\<not> has_name_under key (PDict d) \<longrightarrow> sub_name d key = []"
  by (simp add: has_name_under_def sub_name_def split: pyval.split)

lemma sub_name_absent: "\<not> has_name_under key (PDict d) \<Longrightarrow> sub_name d key = []"
  using sub_name_absent_imp by blast

lemma experience_loop_no_names:
  "list_all (\<lambda>item. \<not> has_name_under (str_of ''company'') item \<and>
                     \<not> has_name_under (str_of ''title'') item) items \<Longrightarrow>
   experience_loop items acc = acc"
proof (induction items arbitrary: acc)
  case Nil
  show ?case by simp
next
  case (Cons item items)
  then have c: "\<not> has_name_under (str_of ''company'') item"
    and t: "\<not> has_name_under (str_of ''title'') item"
    and rest: "list_all (\<lambda>item. \<not> has_name_under (str_of ''company'') item \<and>
                     \<not> has_name_under (str_of ''title'') item) items"
    by simp_all
  have "experience_loop [item] acc = acc"
  proof (cases "is_dict item")
    case True
    then obtain d where d: "item = PDict d" by (auto simp: is_dict_def split: pyval.splits)
    with c t show ?thesis by (simp add: sub_name_absent)
  next
    case False
    then show ?thesis by (simp add: is_dict_def split: pyval.splits)
  qed
  then show ?case
    using Cons.IH [OF rest, of acc] by (simp only: experience_loop_step [of item items acc])
qed

lemma skills_loop_no_strings:
  "list_all (\<lambda>item. \<not> is_str item) items \<Longrightarrow> skills_loop items acc = acc"
  by (induction items arbitrary: acc) (auto simp: is_str_def split: pyval.splits)

lemma clean_experience_no_names:
  assumes "le (strip raw) = Some (PList items)"
    and "list_all (\<lambda>item. \<not> has_name_under (str_of ''company'') item \<and>
                     \<not> has_name_under (str_of ''title'') item) items"
  shows "clean_experience le raw = []"
  using assms by (simp add: clean_experience_def Let_def experience_loop_no_names)

lemma clean_skills_no_strings:
  assumes "le (strip raw) = Some (PList items)" and "list_all (\<lambda>item. \<not> is_str item) items"
  shows "clean_skills le raw = []"
  using assms by (simp add: clean_skills_def Let_def skills_loop_no_strings)

lemma clean_education_no_school:
  assumes "le (strip raw) = Some (PList items)"
    and "list_all (\<lambda>item. \<not> has_name_under (str_of ''school'') item) items"
  shows "clean_education le raw = []"
proof -
  have "list_all (\<lambda>item. spec_school_name item = None) items"
    using assms(2) by (auto simp: list_all_iff no_school_name)
  with assms(1) show ?thesis by (rule clean_education_no_names)
qed

text \<open>Calls that the \<open>isinstance\<close> tests keep the cleaners from.\<close>

lemma unguarded_calls_raise:
  "py_get (PList xs) key = Inl AttributeError" "py_strip (PInt n) = Inl AttributeError"
  "py_fullmatch r (PBytes b) = Inl TypeError" "py_join sep [PInt n] = Inl TypeError"
  by (simp_all add: py_join_def)

text \<open>
  C6. For each of the nine columns \<open>normalize\<close> of a string returns a value, the one
  \<open>normalize_col\<close> gives: \<open>get_cleaner\<close> succeeds, what \<open>ast.literal_eval\<close> raises is
  caught, and the \<open>isinstance\<close> tests keep every call of \<open>get\<close>, \<open>strip\<close>,
  \<open>re.fullmatch\<close> and \<open>join\<close> on an object it does not raise on. For any other column
  name \<open>get_cleaner\<close> raises the \<open>ValueError\<close> \<open>No cleaner found for column\<close> (the
  specification's ConfigurationError) whatever the data. A list column's cell that does
  not look like a list, does not parse, or parses to something that is no list is cleaned
  to the empty string, and so is a cell whose list has no element of the shape the column
  expects: no school name for education, neither a company nor a title name for
  experience, no string for skills.
\<close>

theorem normalize_total:
  "(col \<in> set columns \<longrightarrow>
      (\<exists>v. normalize_run le to_str col raw = Inr v \<and> normalize_col le col raw = Inr v)) \<and>
   (col \<notin> set columns \<longrightarrow>
      get_cleaner le col = Inl (ValueError (No_cleaner_found col)) \<and>
      normalize_col le col raw = Inl (ValueError (No_cleaner_found col)) \<and>
      normalize_run le to_str col raw = Inl (Raised (ValueError (No_cleaner_found col)))) \<and>
   (col \<in> set KEYWORD_COLUMNS \<and>
      (\<not> looks_like_list (strip raw) \<or> le (strip raw) = None \<or>
       (\<exists>v. le (strip raw) = Some v \<and> (\<forall>items. v \<noteq> PList items))) \<longrightarrow>
      normalize_run le to_str col raw = Inr [] \<and> normalize_col le col raw = Inr []) \<and>
   (le (strip raw) = Some (PList items) \<and>
      list_all (\<lambda>item. \<not> has_name_under (str_of ''school'') item) items \<longrightarrow>
      normalize_run le to_str (str_of ''education'') raw = Inr [] \<and>
      normalize_col le (str_of ''education'') raw = Inr []) \<and>
   (le (strip raw) = Some (PList items) \<and>
      list_all (\<lambda>item. \<not> has_name_under (str_of ''company'') item \<and>
                        \<not> has_name_under (str_of ''title'') item) items \<longrightarrow>
      normalize_run le to_str (str_of ''experience'') raw = Inr [] \<and>
      normalize_col le (str_of ''experience'') raw = Inr []) \<and>
   (le (strip raw) = Some (PList items) \<and> list_all (\<lambda>item. \<not> is_str item) items \<longrightarrow>
      normalize_run le to_str (str_of ''skills'') raw = Inr [] \<and>
      normalize_col le (str_of ''skills'') raw = Inr [])"
proof -
  have edu: "str_of ''education'' \<in> set columns" and exp: "str_of ''experience'' \<in> set columns"
    and ski: "str_of ''skills'' \<in> set columns"
    by (simp_all add: columns_def)
  have known: "col \<in> set columns \<longrightarrow>
      (\<exists>v. normalize_run le to_str col raw = Inr v \<and> normalize_col le col raw = Inr v)"
    using normalize_run_known by blast
  have unknown: "col \<notin> set columns \<longrightarrow>
      get_cleaner le col = Inl (ValueError (No_cleaner_found col)) \<and>
      normalize_col le col raw = Inl (ValueError (No_cleaner_found col)) \<and>
      normalize_run le to_str col raw = Inl (Raised (ValueError (No_cleaner_found col)))"
    by (simp add: normalize_col_def get_cleaner_unknown normalize_run_unknown)
  have degrade: "col \<in> set KEYWORD_COLUMNS \<and>
      (\<not> looks_like_list (strip raw) \<or> le (strip raw) = None \<or>
       (\<exists>v. le (strip raw) = Some v \<and> (\<forall>items. v \<noteq> PList items))) \<longrightarrow>
      normalize_run le to_str col raw = Inr [] \<and> normalize_col le col raw = Inr []"
  proof
    assume a: "col \<in> set KEYWORD_COLUMNS \<and>
      (\<not> looks_like_list (strip raw) \<or> le (strip raw) = None \<or>
       (\<exists>v. le (strip raw) = Some v \<and> (\<forall>items. v \<noteq> PList items)))"
    then have d: "\<not> looks_like_list (strip raw) \<or> le (strip raw) = None \<or>
       (\<exists>v. le (strip raw) = Some v \<and> (\<forall>items. v \<noteq> PList items))"
      by simp
    from a consider "col = str_of ''education''" | "col = str_of ''experience''"
      | "col = str_of ''skills''"
      by (auto simp: KEYWORD_COLUMNS_def)
    then have p: "col \<in> set columns \<and> normalize_col le col raw = Inr []"
    proof cases
      case 1
      with edu show ?thesis
        by (simp add: normalize_col_def get_cleaner_education
            keyword_cleaners_degrade(1) [where raw = raw and le = le, OF d])
    next
      case 2
      with exp show ?thesis
        by (simp add: normalize_col_def get_cleaner_experience
            keyword_cleaners_degrade(2) [where raw = raw and le = le, OF d])
    next
      case 3
      with ski show ?thesis
        by (simp add: normalize_col_def get_cleaner_skills
            keyword_cleaners_degrade(3) [where raw = raw and le = le, OF d])
    qed
    then show "normalize_run le to_str col raw = Inr [] \<and> normalize_col le col raw = Inr []"
      using normalize_run_value [of col le raw "[]" to_str] by simp
  qed
  have school: "le (strip raw) = Some (PList items) \<and>
      list_all (\<lambda>item. \<not> has_name_under (str_of ''school'') item) items \<longrightarrow>
      normalize_run le to_str (str_of ''education'') raw = Inr [] \<and>
      normalize_col le (str_of ''education'') raw = Inr []"
  proof
    assume "le (strip raw) = Some (PList items) \<and>
      list_all (\<lambda>item. \<not> has_name_under (str_of ''school'') item) items"
    then have "normalize_col le (str_of ''education'') raw = Inr []"
      by (simp add: normalize_col_def get_cleaner_education clean_education_no_school)
    then show "normalize_run le to_str (str_of ''education'') raw = Inr [] \<and>
      normalize_col le (str_of ''education'') raw = Inr []"
      using normalize_run_value [OF edu] by simp
  qed
  have company: "le (strip raw) = Some (PList items) \<and>
      list_all (\<lambda>item. \<not> has_name_under (str_of ''company'') item \<and>
                        \<not> has_name_under (str_of ''title'') item) items \<longrightarrow>
      normalize_run le to_str (str_of ''experience'') raw = Inr [] \<and>
      normalize_col le (str_of ''experience'') raw = Inr []"
  proof
    assume "le (strip raw) = Some (PList items) \<and>
      list_all (\<lambda>item. \<not> has_name_under (str_of ''company'') item \<and>
                        \<not> has_name_under (str_of ''title'') item) items"
    then have "normalize_col le (str_of ''experience'') raw = Inr []"
      by (simp add: normalize_col_def get_cleaner_experience clean_experience_no_names)
    then show "normalize_run le to_str (str_of ''experience'') raw = Inr [] \<and>
      normalize_col le (str_of ''experience'') raw = Inr []"
      using normalize_run_value [OF exp] by simp
  qed
  have strings: "le (strip raw) = Some (PList items) \<and> list_all (\<lambda>item. \<not> is_str item) items \<longrightarrow>
      normalize_run le to_str (str_of ''skills'') raw = Inr [] \<and>
      normalize_col le (str_of ''skills'') raw = Inr []"
  proof
    assume "le (strip raw) = Some (PList items) \<and> list_all (\<lambda>item. \<not> is_str item) items"
    then have "normalize_col le (str_of ''skills'') raw = Inr []"
      by (simp add: normalize_col_def get_cleaner_skills clean_skills_no_strings)
    then show "normalize_run le to_str (str_of ''skills'') raw = Inr [] \<and>
      normalize_col le (str_of ''skills'') raw = Inr []"
      using normalize_run_value [OF ski] by simp
  qed
  from known unknown degrade school company strings show ?thesis by (intro conjI)
qed

text \<open>
  C6 at the unparseable \<open>[abc]\<close>, the undeclared column \<open>age\<close> and a list whose elements
  have none of the expected shapes.
\<close>

theorem normalize_total_witness:
  "str_of ''education'' \<in> set columns \<and> str_of ''education'' \<in> set KEYWORD_COLUMNS \<and>
   literal_eval_examples (strip (str_of ''[abc]'')) = None \<and>
   normalize_run literal_eval_examples (\<lambda>v. []) (str_of ''education'') (str_of ''[abc]'') = Inr [] \<and>
   normalize_col literal_eval_examples (str_of ''education'') (str_of ''[abc]'') = Inr [] \<and>
   str_of ''age'' \<notin> set columns \<and>
   get_cleaner literal_eval_examples (str_of ''age'') = Inl (ValueError (No_cleaner_found (str_of ''age''))) \<and>
   normalize_run literal_eval_examples (\<lambda>v. []) (str_of ''age'') (str_of ''[abc]'')
     = Inl (Raised (ValueError (No_cleaner_found (str_of ''age'')))) \<and>
   literal_eval_examples (strip (str_of ''[{'school': 'MIT'}, 7]'')) =
     Some (PList [PDict [(PStr (str_of ''school''), PStr (str_of ''MIT''))], PInt 7]) \<and>
   normalize_run literal_eval_examples (\<lambda>v. []) (str_of ''education'')
     (str_of ''[{'school': 'MIT'}, 7]'') = Inr [] \<and>
   normalize_run literal_eval_examples (\<lambda>v. []) (str_of ''experience'')
     (str_of ''[{'school': 'MIT'}, 7]'') = Inr [] \<and>
   normalize_run literal_eval_examples (\<lambda>v. []) (str_of ''skills'')
     (str_of ''[{'school': 'MIT'}, 7]'') = Inr []"
proof -
  let ?items = "[PDict [(PStr (str_of ''school''), PStr (str_of ''MIT''))], PInt 7]"
  have c: "str_of ''education'' \<in> set columns" and k: "str_of ''education'' \<in> set KEYWORD_COLUMNS"
    and u: "str_of ''age'' \<notin> set columns"
    by (simp_all add: columns_def KEYWORD_COLUMNS_def str_of_def)
  have p: "literal_eval_examples (strip (str_of ''[abc]'')) = None"
    by (simp add: literal_eval_examples_def strip_def str_of_def class_defs)
  have q: "literal_eval_examples (strip (str_of ''[{'school': 'MIT'}, 7]'')) = Some (PList ?items)"
    by (simp add: literal_eval_examples_def strip_def str_of_def class_defs)
  have s1: "list_all (\<lambda>item. \<not> has_name_under (str_of ''school'') item) ?items"
    by (simp add: has_name_under_def dict_get_def str_of_def)
  have s2: "list_all (\<lambda>item. \<not> has_name_under (str_of ''company'') item \<and>
                              \<not> has_name_under (str_of ''title'') item) ?items"
    by (simp add: has_name_under_def dict_get_def str_of_def)
  have s3: "list_all (\<lambda>item. \<not> is_str item) ?items"
    by (simp add: is_str_def)
  note t1 = normalize_total [of "str_of ''education''" literal_eval_examples "\<lambda>v. []"
      "str_of ''[abc]''"]
  note t2 = normalize_total [of "str_of ''age''" literal_eval_examples "\<lambda>v. []"
      "str_of ''[abc]''"]
  note t3 = normalize_total [of "str_of ''education''" literal_eval_examples "\<lambda>v. []"
      "str_of ''[{'school': 'MIT'}, 7]''" ?items]
  have r1: "normalize_run literal_eval_examples (\<lambda>v. []) (str_of ''education'') (str_of ''[abc]'')
              = Inr [] \<and>
            normalize_col literal_eval_examples (str_of ''education'') (str_of ''[abc]'') = Inr []"
    using t1 k p by blast
  have r2: "get_cleaner literal_eval_examples (str_of ''age'') =
              Inl (ValueError (No_cleaner_found (str_of ''age''))) \<and>
            normalize_run literal_eval_examples (\<lambda>v. []) (str_of ''age'') (str_of ''[abc]'')
              = Inl (Raised (ValueError (No_cleaner_found (str_of ''age''))))"
    using t2 u by blast
  have r3: "normalize_run literal_eval_examples (\<lambda>v. []) (str_of ''education'')
              (str_of ''[{'school': 'MIT'}, 7]'') = Inr []"
    using t3 q s1 by blast
  have r4: "normalize_run literal_eval_examples (\<lambda>v. []) (str_of ''experience'')
              (str_of ''[{'school': 'MIT'}, 7]'') = Inr []"
    using t3 q s2 by blast
  have r5: "normalize_run literal_eval_examples (\<lambda>v. []) (str_of ''skills'')
              (str_of ''[{'school': 'MIT'}, 7]'') = Inr []"
    using t3 q s3 by blast
  from c k p r1 u r2 q r3 r4 r5 show ?thesis by blast
qed

section \<open>Further properties of the cleaners and the pipeline\<close>

lemma split_on_no_sep: "sep \<notin> set a \<Longrightarrow> split_on sep a = [a]"
  by (induction a) auto

lemma split_on_at_sep: "sep \<notin> set a \<Longrightarrow> split_on sep (a @ sep # b) = a # split_on sep b"
  by (induction a) auto

lemma dropWhile_spaces_append:
  "list_all is_space p \<Longrightarrow> dropWhile is_space (p @ r) = dropWhile is_space r"
  by (induction p) auto

lemma stripped_ends:
  assumes "x \<noteq> []" and "strip x = x"
  shows "\<not> is_space (hd x)" and "\<not> is_space (last x)"
  using strip_ends [of x] assms by auto

lemma strip_padded:
  assumes p: "list_all is_space p" and q: "list_all is_space q"
    and x: "x \<noteq> []" and s: "strip x = x"
  shows "strip (p @ x @ q) = x"
proof -
  have h: "\<not> is_space (hd x)" and l: "\<not> is_space (last x)"
    using x s by (rule stripped_ends)+
  have a: "dropWhile is_space (p @ x @ q) = x @ q"
    using p h x by (simp add: dropWhile_spaces_append dropWhile_hd_id [of "x @ q"])
  have rq: "list_all is_space (rev q)" using q by (simp add: list_all_iff)
  have "hd (rev x) = last x" using x by (simp add: hd_rev)
  then have b: "dropWhile is_space (rev q @ rev x) = rev x"
    using rq l by (simp add: dropWhile_spaces_append dropWhile_hd_id)
  show ?thesis by (simp add: strip_def a b)
qed

lemma split_items_join_padded:
  assumes "names \<noteq> []"
    and "list_all (\<lambda>name. name \<noteq> [] \<and> strip name = name \<and> 124 \<notin> set name) names"
    and "list_all is_space p" and "124 \<notin> set p"
  shows "split_items (p @ join (str_of '' | '') names) = names"
  using assms
proof (induction names arbitrary: p rule: induct_list012)
  case 1
  then show ?case by simp
next
  case (2 x)
  then have n: "124 \<notin> set (p @ x)" by simp
  have "strip (p @ x @ []) = x" using 2 by (intro strip_padded) simp_all
  then show ?case using 2 n by (simp add: split_items_def split_on_no_sep)
next
  case (3 x y ys)
  define rest where "rest = split_on 124 ([32] @ join (str_of '' | '') (y # ys))"
  have sp: "list_all is_space [32]" by (simp add: is_space_32)
  have n: "124 \<notin> set (p @ x @ [32])" using 3 by simp
  have e: "p @ join (str_of '' | '') (x # y # ys)
           = (p @ x @ [32]) @ 124 # ([32] @ join (str_of '' | '') (y # ys))"
    by (simp add: str_of_def)
  have sl: "split_on 124 (p @ join (str_of '' | '') (x # y # ys)) = (p @ x @ [32]) # rest"
    unfolding e rest_def by (rule split_on_at_sep [OF n])
  have s: "strip (p @ x @ [32]) = x" using 3 sp by (intro strip_padded) simp_all
  have "split_items ([32] @ join (str_of '' | '') (y # ys)) = y # ys"
    using 3(3-) sp by (intro 3(2)) simp_all
  then have ih: "map strip (filter (\<lambda>item. strip item \<noteq> []) rest) = y # ys"
    unfolding split_items_def rest_def .
  have x: "x \<noteq> []" using 3 by simp
  show ?case
    unfolding split_items_def sl using ih s x by simp
qed

lemma join_not_empty:
  assumes "names \<noteq> []" and "hd names \<noteq> []"
  shows "join sep names \<noteq> []"
proof (cases names)
  case Nil
  with assms show ?thesis by simp
next
  case (Cons x xs)
  with assms show ?thesis by (cases xs) auto
qed

lemma education_loop_names_stripped:
  "list_all (\<lambda>name. name \<noteq> [] \<and> strip name = name) acc \<Longrightarrow>
   list_all (\<lambda>name. name \<noteq> [] \<and> strip name = name) (education_loop data acc)"
  by (induction data arbitrary: acc) (auto simp: strip_idem split: pyval.split)

lemma names_without_pipe_survive:
  assumes "list_all (\<lambda>name. 124 \<notin> set name) (education_loop data [])"
  shows "(let cleaned_text = join (str_of '' | '') (education_loop data [])
          in if cleaned_text \<noteq> [] then split_items cleaned_text else [])
         = education_loop data []"
proof (cases "education_loop data [] = []")
  case True
  then show ?thesis by simp
next
  case False
  let ?names = "education_loop data []"
  have st: "list_all (\<lambda>name. name \<noteq> [] \<and> strip name = name) ?names"
    by (rule education_loop_names_stripped) simp
  with assms have all: "list_all (\<lambda>name. name \<noteq> [] \<and> strip name = name \<and> 124 \<notin> set name) ?names"
    by (auto simp: list_all_iff)
  have "split_items ([] @ join (str_of '' | '') ?names) = ?names"
    using False all by (intro split_items_join_padded) simp_all
  moreover have "hd ?names \<noteq> []"
    using False st by (cases ?names) auto
  then have "join (str_of '' | '') ?names \<noteq> []"
    using False by (intro join_not_empty)
  ultimately show ?thesis by (simp add: Let_def)
qed

lemma strip_Nil: "strip [] = []"
  by (simp add: strip_def)

lemma strip_all_spaces:
  assumes "list_all is_space raw"
  shows "strip raw = []"
proof -
  have d: "dropWhile is_space raw = []" using assms by (induction raw) auto
  show ?thesis unfolding strip_def d by simp
qed

lemma looks_serialized_Nil: "\<not> looks_serialized []"
  by (simp add: looks_serialized_def startswith_def str_of_def)

lemma looks_like_list_Nil: "\<not> looks_like_list []"
  by (simp add: looks_like_list_def startswith_def str_of_def)

lemma isdigit_Nil: "\<not> isdigit []"
  by (simp add: isdigit_def)

lemma no_match_Nil:
  "\<not> fullmatch numeric_range []" "\<not> fullmatch number_plus []" "\<not> fullmatch simple_float []"
  "\<not> fullmatch iso_date []" "\<not> fullmatch comma_range []" "\<not> fullmatch less_than []"
  "\<not> fullmatch greater_than []" "\<not> fullmatch year_month []"
  "\<not> search drive_letter []" "\<not> search_dollar file_extension []"
  by (simp_all add: numeric_range_def number_plus_def simple_float_def iso_date_def
      comma_range_def digits_commas_def less_than_def greater_than_def year_month_def
      drive_letter_def file_extension_def search_def search_dollar_def Plus_def Chr_def
      eval_nat_numeral)

text \<open>
  A cell that is empty or holds whitespace only is cleaned to the empty string, in each
  of the nine columns.
\<close>

theorem blank_cell_cleans_to_empty:
  assumes "list_all is_space raw" and "col \<in> set columns"
  shows "normalize_col le col raw = Inr []"
proof -
  have s: "strip raw = []" using assms(1) by (rule strip_all_spaces)
  from assms(2) consider "col = str_of ''full_name''" | "col = str_of ''job_title''"
    | "col = str_of ''industry''" | "col = str_of ''summary''"
    | "col = str_of ''location_country''" | "col = str_of ''education''"
    | "col = str_of ''experience''" | "col = str_of ''skills''" | "col = str_of ''job_summary''"
    by (auto simp: columns_def)
  then show ?thesis
  proof cases
    case 1
    then show ?thesis
      by (simp add: normalize_col_def get_cleaner_full_name clean_full_name_def s no_match_Nil)
  next
    case 2
    then show ?thesis
      by (simp add: normalize_col_def get_cleaner_job_title clean_job_title_def s
          looks_serialized_Nil)
  next
    case 3
    then show ?thesis
      by (simp add: normalize_col_def get_cleaner_industry clean_industry_def s
          looks_serialized_Nil search_class_def strip_Nil)
  next
    case 4
    then show ?thesis
      by (simp add: normalize_col_def get_cleaner_summary clean_summary_def s
          looks_serialized_Nil no_match_Nil)
  next
    case 5
    then show ?thesis
      by (simp add: normalize_col_def get_cleaner_location_country clean_location_country_def s
          looks_serialized_Nil no_match_Nil)
  next
    case 6
    then show ?thesis
      by (simp add: normalize_col_def get_cleaner_education clean_education_def s
          looks_like_list_Nil)
  next
    case 7
    then show ?thesis
      by (simp add: normalize_col_def get_cleaner_experience clean_experience_def s
          looks_like_list_Nil)
  next
    case 8
    then show ?thesis
      by (simp add: normalize_col_def get_cleaner_skills clean_skills_def s looks_like_list_Nil)
  next
    case 9
    then show ?thesis
      by (simp add: normalize_col_def get_cleaner_job_summary clean_job_summary_def s
          isdigit_Nil no_match_Nil)
  qed
qed

text \<open>
  The summary column at three spaces.
\<close>

theorem blank_cell_cleans_to_empty_witness:
  "list_all is_space (str_of ''   '') \<and> str_of ''summary'' \<in> set columns \<and>
   normalize_col literal_eval_examples (str_of ''summary'') (str_of ''   '') = Inr []"
proof -
  have a: "list_all is_space (str_of ''   '')" by (simp add: str_of_def is_space_32)
  have b: "str_of ''summary'' \<in> set columns" by (simp add: columns_def)
  from a b blank_cell_cleans_to_empty [OF a b, of literal_eval_examples] show ?thesis by simp
qed

text \<open>
  When an education cell parses to a list and none of the extracted school names holds
  the character \<open>|\<close> (code 124), the education field of the document is the list of
  the extracted names: joining them with \<open> | \<close> and splitting at \<open>|\<close> gives them back.
\<close>

theorem education_names_without_pipe_survive:
  assumes "cell_text r (str_of ''education'') \<noteq> []"
    and "looks_like_list (strip (cell_text r (str_of ''education'')))"
    and "le (strip (cell_text r (str_of ''education''))) = Some (PList data)"
    and "list_all (\<lambda>name. 124 \<notin> set name) (education_loop data [])"
  shows "doc_field (clean_education le) (str_of ''education'') r = Tags (education_loop data [])"
proof -
  have k: "str_of ''education'' \<in> set KEYWORD_COLUMNS"
    by (simp add: KEYWORD_COLUMNS_def)
  have c: "clean_education le (cell_text r (str_of ''education''))
             = join (str_of '' | '') (education_loop data [])"
    using assms(1-3) by (simp add: clean_education_def)
  show ?thesis
    using names_without_pipe_survive [OF assms(4)] k
    by (auto simp: doc_field_def c Let_def split: if_splits)
qed

text \<open>
  The list of two schools, the first with a blank name.
\<close>

theorem education_names_without_pipe_survive_witness:
  "doc_field (clean_education literal_eval_examples) (str_of ''education'')
     (row_with (str_of ''education'')
        (str_of ''[{'school': {'name': ' '}}, {'school': {'name': 'MIT'}}]''))
   = Tags [str_of ''MIT'']"
proof -
  let ?t = "str_of ''[{'school': {'name': ' '}}, {'school': {'name': 'MIT'}}]''"
  let ?data = "[school_entry (str_of '' ''), school_entry (str_of ''MIT'')]"
  let ?r = "row_with (str_of ''education'') ?t"
  have ct: "cell_text ?r (str_of ''education'') = ?t"
    by (simp add: cell_text_row_with)
  have s: "strip ?t = ?t"
    by (simp add: strip_def str_of_def class_defs)
  have a: "cell_text ?r (str_of ''education'') \<noteq> []"
    unfolding ct by (simp add: str_of_def)
  have b: "looks_like_list (strip (cell_text ?r (str_of ''education'')))"
    unfolding ct s by (simp add: looks_like_list_def startswith_def endswith_def str_of_def)
  have c: "literal_eval_examples (strip (cell_text ?r (str_of ''education''))) = Some (PList ?data)"
    unfolding ct s by (simp add: literal_eval_examples_def str_of_def)
  have l: "education_loop ?data [] = [str_of ''MIT'']"
    by (simp add: school_entry_def dict_get_def strip_def str_of_def class_defs)
  have d: "list_all (\<lambda>name. 124 \<notin> set name) (education_loop ?data [])"
    unfolding l by (simp add: str_of_def)
  show ?thesis
    using education_names_without_pipe_survive
      [where r = ?r and le = literal_eval_examples and data = ?data, OF a b c d]
    unfolding l .
qed

end
